theory Spec2Isabelle
  imports Complex_Main "HOL-Library.Sublist" "HOL-Library.Word"
    "HOL-Library.Char_ord" "HOL-Library.List_Lexorder"
begin

section \<open>Go values used by the client\<close>

text \<open>
  A \<^verbatim>\<open>float64\<close> is a finite number, an infinity or a NaN. The client never does
  arithmetic on one: it compares the amount with zero, formats it and passes it through.
  The finite values are carried as reals (every finite float64 is one); the sign of a
  zero is not kept.
\<close>

datatype float64 = Finite real | PosInf | NegInf | NaN

text \<open>Go's \<^verbatim>\<open>x <= 0\<close> and \<^verbatim>\<open>x > 0\<close>: every comparison with a NaN is false.\<close>

definition f64_le_zero :: "float64 \<Rightarrow> bool" where
  "f64_le_zero x = (case x of Finite r \<Rightarrow> r \<le> 0 | PosInf \<Rightarrow> False | NegInf \<Rightarrow> True | NaN \<Rightarrow> False)"

definition f64_gt_zero :: "float64 \<Rightarrow> bool" where
  "f64_gt_zero x = (case x of Finite r \<Rightarrow> 0 < r | PosInf \<Rightarrow> True | NegInf \<Rightarrow> False | NaN \<Rightarrow> False)"

text \<open>
  Error values. \<open>errorString\<close> is what \<^verbatim>\<open>errors.New\<close> and \<^verbatim>\<open>fmt.Errorf\<close> build: a
  message. \<open>NumError\<close> is strconv's error (function, input, cause). \<open>ExternalError\<close>
  is an error handed back by net/http or encoding/json. \<open>NilDereference\<close> is the
  run-time panic of a call through a nil pointer.
\<close>

datatype num_err = ErrSyntax | ErrRange

datatype error =
    errorString string
  | NumError string string num_err
  | ExternalError string
  | NilDereference

subsection \<open>fmt: the verbs \<^verbatim>\<open>%d\<close> and \<^verbatim>\<open>%s\<close>\<close>

fun decimal :: "nat \<Rightarrow> string" where
  "decimal n =
     (if n < 10 then [''0123456789'' ! n]
      else decimal (n div 10) @ [''0123456789'' ! (n mod 10)])"

declare decimal.simps [simp del]

definition FormatInt :: "int \<Rightarrow> string" where
  "FormatInt i = (if i < 0 then ''-'' @ decimal (nat (- i)) else decimal (nat i))"

subsection \<open>strconv.Atoi (64-bit \<^verbatim>\<open>int\<close>)\<close>

text \<open>
  The standard library's \<^verbatim>\<open>Atoi\<close>: a fast path for inputs shorter than 19 bytes, and
  \<^verbatim>\<open>ParseInt(s, 10, 0)\<close> for the rest. A syntax error returns 0; a range error returns
  the bound of the type, and \<^verbatim>\<open>ParseUint\<close> reports it at the digit that overflows,
  before it has looked at the bytes after it.
\<close>

definition is_digit :: "char \<Rightarrow> bool" where
  "is_digit c = (48 \<le> (of_char c :: nat) \<and> (of_char c :: nat) \<le> 57)"

definition digit_val :: "char \<Rightarrow> nat" where
  "digit_val c = of_char c - 48"

fun atoi_fast :: "string \<Rightarrow> int \<Rightarrow> int option" where
  "atoi_fast [] n = Some n"
| "atoi_fast (ch # s) n =
     (if \<not> is_digit ch then None else atoi_fast s (n * 10 + int (digit_val ch)))"

fun parseUint_loop :: "string \<Rightarrow> 64 word \<Rightarrow> 64 word \<times> num_err option" where
  "parseUint_loop [] n = (n, None)"
| "parseUint_loop (c # s) n =
     (if \<not> is_digit c then (0, Some ErrSyntax)
      else if n \<ge> (- 1) div 10 + 1 then (- 1, Some ErrRange)
      else let n10 = n * 10; n1 = n10 + of_nat (digit_val c)
           in if n1 < n10 then (- 1, Some ErrRange) else parseUint_loop s n1)"

definition ParseUint :: "string \<Rightarrow> 64 word \<times> num_err option" where
  "ParseUint s = (if s = [] then (0, Some ErrSyntax) else parseUint_loop s 0)"

definition ParseInt :: "string \<Rightarrow> int \<times> num_err option" where
  "ParseInt s0 =
     (if s0 = [] then (0, Some ErrSyntax)
      else let neg = (hd s0 = CHR ''-'');
               s = (if hd s0 = CHR ''+'' \<or> hd s0 = CHR ''-'' then tl s0 else s0)
           in case ParseUint s of
                (un, Some ErrSyntax) \<Rightarrow> (0, Some ErrSyntax)
              | (un, _) \<Rightarrow>
                  if \<not> neg \<and> uint un \<ge> 2 ^ 63 then (2 ^ 63 - 1, Some ErrRange)
                  else if neg \<and> uint un > 2 ^ 63 then (- (2 ^ 63), Some ErrRange)
                  else (if neg then - uint un else uint un, None))"

definition Atoi :: "string \<Rightarrow> int \<times> error option" where
  "Atoi s0 =
     (if 0 < length s0 \<and> length s0 < 19 then
        let s = (if hd s0 = CHR ''-'' \<or> hd s0 = CHR ''+'' then tl s0 else s0)
        in if length s < 1 then (0, Some (NumError ''Atoi'' s0 ErrSyntax))
           else case atoi_fast s 0 of
                  None \<Rightarrow> (0, Some (NumError ''Atoi'' s0 ErrSyntax))
                | Some n \<Rightarrow> (if hd s0 = CHR ''-'' then - n else n, None)
      else case ParseInt s0 of
             (i, None) \<Rightarrow> (i, None)
           | (i, Some e) \<Rightarrow> (i, Some (NumError ''Atoi'' s0 e)))"

subsection \<open>net/url: form encoding\<close>

text \<open>
  \<^verbatim>\<open>url.QueryEscape\<close> keeps letters, digits and \<^verbatim>\<open>- _ . ~\<close>, writes a space as \<^verbatim>\<open>+\<close>
  and every other byte as \<^verbatim>\<open>%XX\<close>. \<^verbatim>\<open>Values.Encode\<close> writes the pairs sorted by key,
  the values of one key in the order they were added.
\<close>

definition unreserved :: "char \<Rightarrow> bool" where
  "unreserved c =
     (let n = (of_char c :: nat)
      in (97 \<le> n \<and> n \<le> 122) \<or> (65 \<le> n \<and> n \<le> 90) \<or> (48 \<le> n \<and> n \<le> 57)
         \<or> c \<in> set ''-_.~'')"

definition escape_byte :: "char \<Rightarrow> string" where
  "escape_byte c =
     (if unreserved c then [c]
      else if c = CHR '' '' then ''+''
      else [CHR ''%'', ''0123456789ABCDEF'' ! ((of_char c :: nat) div 16),
            ''0123456789ABCDEF'' ! ((of_char c :: nat) mod 16)])"

definition QueryEscape :: "string \<Rightarrow> string" where
  "QueryEscape s = concat (map escape_byte s)"

type_synonym Values = "(string \<times> string) list"

definition Values_Add :: "string \<Rightarrow> string \<Rightarrow> Values \<Rightarrow> Values" where
  "Values_Add k v data = data @ [(k, v)]"

fun join_amp :: "string list \<Rightarrow> string" where
  "join_amp [] = []"
| "join_amp [x] = x"
| "join_amp (x # y # xs) = x @ ''&'' @ join_amp (y # xs)"

definition Values_Encode :: "Values \<Rightarrow> string" where
  "Values_Encode data =
     join_amp (map (\<lambda>(k, v). QueryEscape k @ ''='' @ QueryEscape v) (sort_key fst data))"

subsection \<open>net/http: requests, responses and the remote end\<close>

text \<open>
  A cookie jar is known by its identity only: the client tests the pointer against nil
  and hands it to the HTTP client. What the jar holds is the business of the remote end.
\<close>

datatype jar_ref = JarRef nat

record http_client =
  Timeout :: nat
  Jar :: "jar_ref option"

record http_request =
  rq_method :: string
  rq_url :: string
  rq_header :: "(string \<times> string) list"
  rq_body :: string

text \<open>
  A response is its status code and its body stream: the bytes a read delivers and the
  error, if any, that ends the read.
\<close>

record http_response =
  rs_status :: int
  rs_body :: string
  rs_body_err :: "string option"

record Invoice =
  OutstandingBalance :: float64

record WriteOff =
  InvoiceId :: int
  Amount :: float64

record RequestDetails =
  Method :: string
  Endpoint :: string
  RBody :: "string option"

record Response =
  Body :: string
  StatusCode :: int

text \<open>
  What the client depends on and does not define: whether \<^verbatim>\<open>http.NewRequest\<close> accepts
  a method and URL, what the remote end answers to a request given everything sent
  before it (or the transport failure), how encoding/json decodes a body into an
  Invoice (the struct it leaves behind and its error), and how a float64 is written by
  \<^verbatim>\<open>%.2f\<close> and by encoding/json.
\<close>

record env =
  new_request_error :: "string \<Rightarrow> string \<Rightarrow> string option"
  round_trip :: "(http_client \<times> http_request) list \<Rightarrow> http_client \<Rightarrow> http_request
                   \<Rightarrow> string + http_response"
  json_unmarshal :: "string \<Rightarrow> Invoice \<Rightarrow> Invoice \<times> string option"
  format_f2 :: "float64 \<Rightarrow> string"
  json_float :: "real \<Rightarrow> string"

text \<open>
  The state outside a client value: the requests dispatched so far, oldest first, each
  with the HTTP client that sent it, and the number of cookie jars allocated. One
  dispatch is one call of \<^verbatim>\<open>Client.Do\<close>: the redirects it follows and its timeout are
  part of what \<open>round_trip\<close> answers. A dispatch is recorded whether the transport
  delivers a response or fails.
\<close>

record world =
  trace :: "(http_client \<times> http_request) list"
  jars :: nat

definition cookiejar_New :: "'a world_scheme \<Rightarrow> jar_ref \<times> 'a world_scheme" where
  "cookiejar_New w = (JarRef (jars w), w\<lparr>jars := Suc (jars w)\<rparr>)"

definition NewRequest :: "env \<Rightarrow> string \<Rightarrow> string \<Rightarrow> string option \<Rightarrow> error + http_request" where
  "NewRequest E method url body =
     (let m = (if method = [] then ''GET'' else method)
      in case new_request_error E m url of
           Some msg \<Rightarrow> Inl (ExternalError msg)
         | None \<Rightarrow> Inr \<lparr>rq_method = m, rq_url = url, rq_header = [],
                          rq_body = (case body of None \<Rightarrow> [] | Some b \<Rightarrow> b)\<rparr>)"

definition Header_Set :: "string \<Rightarrow> string \<Rightarrow> http_request \<Rightarrow> http_request" where
  "Header_Set k v rq = rq\<lparr>rq_header := filter (\<lambda>(k', _). k' \<noteq> k) (rq_header rq) @ [(k, v)]\<rparr>"

definition Header_Add :: "string \<Rightarrow> string \<Rightarrow> http_request \<Rightarrow> http_request" where
  "Header_Add k v rq = rq\<lparr>rq_header := rq_header rq @ [(k, v)]\<rparr>"

definition Do :: "env \<Rightarrow> http_client \<Rightarrow> http_request \<Rightarrow> 'a world_scheme
    \<Rightarrow> (error + http_response) \<times> 'a world_scheme" where
  "Do E c rq w =
     ((case round_trip E (trace w) c rq of
         Inl msg \<Rightarrow> Inl (ExternalError msg)
       | Inr resp \<Rightarrow> Inr resp),
      w\<lparr>trace := trace w @ [(c, rq)]\<rparr>)"

definition PostForm :: "env \<Rightarrow> http_client \<Rightarrow> string \<Rightarrow> Values \<Rightarrow> 'a world_scheme
    \<Rightarrow> (error + http_response) \<times> 'a world_scheme" where
  "PostForm E c url data w =
     (case NewRequest E ''POST'' url (Some (Values_Encode data)) of
        Inl err \<Rightarrow> (Inl err, w)
      | Inr rq \<Rightarrow> Do E c (Header_Set ''Content-Type'' ''application/x-www-form-urlencoded'' rq) w)"

definition ReadAll :: "http_response \<Rightarrow> string \<times> error option" where
  "ReadAll resp = (rs_body resp, map_option ExternalError (rs_body_err resp))"

subsection \<open>encoding/json on the two structs\<close>

text \<open>
  \<^verbatim>\<open>json.Marshal\<close> of a WriteOff writes the two fields in order; a NaN or an infinity
  is an unsupported value, and then no bytes are returned.
\<close>

definition Marshal :: "env \<Rightarrow> WriteOff \<Rightarrow> string \<times> error option" where
  "Marshal E d =
     (case Amount d of
        Finite r \<Rightarrow>
          (''{\"invoiceId\":'' @ FormatInt (InvoiceId d) @ '',\"amount\":'' @ json_float E r @ ''}'',
           None)
      | _ \<Rightarrow> ([], Some (ExternalError ''json: unsupported value'')))"

definition Unmarshal :: "env \<Rightarrow> string \<Rightarrow> Invoice \<Rightarrow> Invoice \<times> error option" where
  "Unmarshal E b v = (case json_unmarshal E b v of (v', e) \<Rightarrow> (v', map_option ExternalError e))"

section \<open>The client of \<^verbatim>\<open>fusebill.go\<close>\<close>

text \<open>
  The package's mutex is taken around \<open>login\<close> and released on both of its paths; a
  sequential run never waits on it, and it is left out. \<open>login\<close> reads the body of the
  login response and drops it, read error included; that leaves no trace in the result.
  Both constructors allocate the \<^verbatim>\<open>http.Client\<close>, so \<open>Client\<close> is carried by value. The
  methods have a pointer receiver, but none of this revision assigns a field of it: they
  return no client value.
\<close>

record Credentials =
  Username :: string
  Password :: string
  Token :: string

record Fusebill =
  BaseUrl :: string
  Credentials :: Credentials
  Client :: http_client
  cookieJar :: "jar_ref option"

definition login :: "env \<Rightarrow> Fusebill \<Rightarrow> world \<Rightarrow> error option \<times> world" where
  "login E f w =
     (if cookieJar f = None then (Some (errorString ''cookie jar should be set''), w)
      else
        let data = Values_Add ''password'' (Password (Credentials f))
                     (Values_Add ''username'' (Username (Credentials f)) [])
        in case PostForm E (Client f) (BaseUrl f @ ''/api/Login/'') data w of
             (Inl err, w') \<Rightarrow> (Some err, w')
           | (Inr resp, w') \<Rightarrow>
               if rs_status resp \<noteq> 200
               then (Some (errorString ''unable to login, check you login and password''), w')
               else (None, w'))"

definition WriteOff :: "env \<Rightarrow> Fusebill \<Rightarrow> string \<Rightarrow> float64 \<Rightarrow> world \<Rightarrow> error option \<times> world" where
  "WriteOff E f invoiceID balance w =
     (if f64_le_zero balance
      then (Some (errorString (''Invoice '' @ invoiceID @ '': outstandingBalance is ''
                               @ format_f2 E balance)), w)
      else
        case login E f w of
          (Some err, w1) \<Rightarrow> (Some err, w1)
        | (None, w1) \<Rightarrow>
            let i = fst (Atoi invoiceID);
                data = \<lparr>InvoiceId = i, Amount = balance\<rparr>;
                r = fst (Marshal E data)
            in case NewRequest E ''POST'' (BaseUrl f @ ''/api/invoices/writeoff'') (Some r) of
                 Inl err \<Rightarrow> (Some err, w1)
               | Inr request \<Rightarrow>
                   (case Do E (Client f) (Header_Set ''Content-Type'' ''application/json'' request) w1 of
                      (Inl err, w2) \<Rightarrow> (Some err, w2)
                    | (Inr resp, w2) \<Rightarrow>
                        if rs_status resp \<noteq> 200
                        then (Some (errorString (''server returns '' @ FormatInt (rs_status resp)
                                     @ ''; message '' @ fst (ReadAll resp))), w2)
                        else (None, w2)))"

definition SendRequest :: "env \<Rightarrow> Fusebill \<Rightarrow> RequestDetails \<Rightarrow> world
    \<Rightarrow> (Response \<times> error option) \<times> world" where
  "SendRequest E f r w =
     (case NewRequest E (Method r) (BaseUrl f @ Endpoint r) (RBody r) of
        Inl err \<Rightarrow> ((\<lparr>Body = [], StatusCode = 0\<rparr>, Some err), w)
      | Inr request \<Rightarrow>
          (case Do E (Client f)
                  (Header_Add ''Authorization'' (''Basic '' @ Token (Credentials f))
                     (Header_Add ''Content-Type'' ''application/json'' request)) w of
             (Inl err, w') \<Rightarrow> ((\<lparr>Body = [], StatusCode = 0\<rparr>, Some err), w')
           | (Inr resp, w') \<Rightarrow>
               if rs_status resp \<noteq> 200
               then ((\<lparr>Body = [], StatusCode = 0\<rparr>,
                      Some (errorString (''Request failed with the status code: ''
                              @ FormatInt (rs_status resp) @ '', content: '' @ fst (ReadAll resp)))), w')
               else (case ReadAll resp of
                       (b, Some err) \<Rightarrow> ((\<lparr>Body = [], StatusCode = 0\<rparr>, Some err), w')
                     | (b, None) \<Rightarrow> ((\<lparr>Body = b, StatusCode = rs_status resp\<rparr>, None), w'))))"

definition GetInvoiceBalance :: "env \<Rightarrow> Fusebill \<Rightarrow> string \<Rightarrow> world
    \<Rightarrow> (float64 \<times> error option) \<times> world" where
  "GetInvoiceBalance E f invoiceID w =
     (case SendRequest E f \<lparr>Method = ''GET'', Endpoint = ''/invoices/'' @ invoiceID, RBody = None\<rparr> w of
        ((resp, Some err), w') \<Rightarrow> ((Finite 0, Some err), w')
      | ((resp, None), w') \<Rightarrow>
          let invoice = \<lparr>OutstandingBalance = Finite 0\<rparr>;
              invoice' = fst (Unmarshal E (Body resp) invoice)
          in ((OutstandingBalance invoice', None), w'))"

definition NewClient :: "string \<Rightarrow> Credentials \<Rightarrow> Fusebill" where
  "NewClient mode credentials =
     (let baseUrl = (if mode = ''production'' then ''https://secure.fusebill.com/v1''
                     else ''https://stg-secure.fusebill.com/v1'')
      in \<lparr>BaseUrl = baseUrl, Credentials = credentials,
          Client = \<lparr>Timeout = 5, Jar = None\<rparr>, cookieJar = None\<rparr>)"

definition NewPrivateClient :: "string \<Rightarrow> Credentials \<Rightarrow> world \<Rightarrow> Fusebill \<times> world" where
  "NewPrivateClient mode credentials w =
     (let baseUrl = (if mode = ''production'' then ''https://secure.fusebill.com''
                     else ''https://stg-secure.fusebill.com'');
          client0 = \<lparr>BaseUrl = baseUrl, Credentials = credentials,
                     Client = \<lparr>Timeout = 5, Jar = None\<rparr>, cookieJar = None\<rparr>;
          (j, w') = cookiejar_New w;
          client1 = client0\<lparr>cookieJar := Some j\<rparr>;
          client2 = client1\<lparr>Client := (Client client1)\<lparr>Jar := cookieJar client1\<rparr>\<rparr>
      in (client2, w'))"

section \<open>The client of \<^verbatim>\<open>part_000\<close>\<close>

text \<open>
  This revision keeps the HTTP client that carries the session in a package-level
  variable \<open>client\<close>, nil until a login sets it, and creates the cookie jar inside
  \<open>login\<close>. Names it shares with \<^verbatim>\<open>fusebill.go\<close> carry the suffix \<open>_p0\<close>.
\<close>

record Credentials_p0 =
  Username_p0 :: string
  Password_p0 :: string

record InteractionMode =
  Token_p0 :: string
  ApiHost :: string

record Fusebill_p0 =
  BaseUrl_p0 :: string
  Mode :: InteractionMode
  Credentials_p0 :: Credentials_p0
  Client_p0 :: http_client
  cookieJar_p0 :: "jar_ref option"

record world_p0 = world +
  client :: "http_client option"

definition login_p0 :: "env \<Rightarrow> Fusebill_p0 \<Rightarrow> world_p0 \<Rightarrow> error option \<times> Fusebill_p0 \<times> world_p0" where
  "login_p0 E f w =
     (if cookieJar_p0 f \<noteq> None then (None, f, w)
      else
        let (j, w1) = cookiejar_New w;
            f1 = f\<lparr>cookieJar_p0 := Some j\<rparr>;
            c = \<lparr>Timeout = 0, Jar = cookieJar_p0 f1\<rparr>;
            w2 = w1\<lparr>client := Some c\<rparr>;
            data = Values_Add ''password'' (Password_p0 (Credentials_p0 f1))
                     (Values_Add ''username'' (Username_p0 (Credentials_p0 f1)) [])
        in case PostForm E c (BaseUrl_p0 f1 @ ''/api/Login/'') data w2 of
             (Inl err, w3) \<Rightarrow> (Some err, f1, w3)
           | (Inr resp, w3) \<Rightarrow>
               if rs_status resp \<noteq> 200
               then (Some (errorString ''unable to login, check you login and password''), f1, w3)
               else (None, f1, w3))"

definition WriteOff_p0 :: "env \<Rightarrow> Fusebill_p0 \<Rightarrow> string \<Rightarrow> float64 \<Rightarrow> world_p0
    \<Rightarrow> error option \<times> Fusebill_p0 \<times> world_p0" where
  "WriteOff_p0 E f invoiceID balance w =
     (if f64_le_zero balance
      then (Some (errorString (''Invoice '' @ invoiceID @ '': outstandingBalance is ''
                               @ format_f2 E balance)), f, w)
      else
        case login_p0 E f w of
          (Some err, f1, w1) \<Rightarrow> (Some err, f1, w1)
        | (None, f1, w1) \<Rightarrow>
            let i = fst (Atoi invoiceID);
                data = \<lparr>InvoiceId = i, Amount = balance\<rparr>;
                r = fst (Marshal E data)
            in case NewRequest E ''POST'' (BaseUrl_p0 f1 @ ''/api/invoices/writeoff'') (Some r) of
                 Inl err \<Rightarrow> (Some err, f1, w1)
               | Inr request \<Rightarrow>
                   (case client w1 of
                      None \<Rightarrow> (Some NilDereference, f1, w1)
                    | Some c \<Rightarrow>
                        (case Do E c (Header_Set ''Content-Type'' ''application/json'' request) w1 of
                           (Inl err, w2) \<Rightarrow> (Some err, f1, w2)
                         | (Inr resp, w2) \<Rightarrow>
                             if rs_status resp \<noteq> 200
                             then (Some (errorString (''server returns '' @ FormatInt (rs_status resp)
                                          @ ''; message '' @ fst (ReadAll resp))), f1, w2)
                             else (None, f1, w2))))"

definition SendRequest_p0 :: "env \<Rightarrow> Fusebill_p0 \<Rightarrow> RequestDetails \<Rightarrow> world_p0
    \<Rightarrow> (Response \<times> error option) \<times> world_p0" where
  "SendRequest_p0 E f r w =
     (case NewRequest E (Method r) (ApiHost (Mode f) @ Endpoint r) (RBody r) of
        Inl err \<Rightarrow> ((\<lparr>Body = [], StatusCode = 0\<rparr>, Some err), w)
      | Inr request \<Rightarrow>
          (case Do E (Client_p0 f)
                  (Header_Add ''Authorization'' (''Basic '' @ Token_p0 (Mode f))
                     (Header_Add ''Content-Type'' ''application/json'' request)) w of
             (Inl err, w') \<Rightarrow> ((\<lparr>Body = [], StatusCode = 0\<rparr>, Some err), w')
           | (Inr resp, w') \<Rightarrow>
               if rs_status resp \<noteq> 200
               then ((\<lparr>Body = [], StatusCode = 0\<rparr>,
                      Some (errorString (''Request failed with the status code: ''
                              @ FormatInt (rs_status resp) @ '', content: '' @ fst (ReadAll resp)))), w')
               else (case ReadAll resp of
                       (b, Some err) \<Rightarrow> ((\<lparr>Body = [], StatusCode = 0\<rparr>, Some err), w')
                     | (b, None) \<Rightarrow> ((\<lparr>Body = b, StatusCode = rs_status resp\<rparr>, None), w'))))"

definition GetInvoiceBalance_p0 :: "env \<Rightarrow> Fusebill_p0 \<Rightarrow> string \<Rightarrow> world_p0
    \<Rightarrow> (float64 \<times> error option) \<times> world_p0" where
  "GetInvoiceBalance_p0 E f invoiceID w =
     (case SendRequest_p0 E f \<lparr>Method = ''GET'', Endpoint = ''/invoices/'' @ invoiceID, RBody = None\<rparr> w of
        ((resp, Some err), w') \<Rightarrow> ((Finite 0, Some err), w')
      | ((resp, None), w') \<Rightarrow>
          let invoice = \<lparr>OutstandingBalance = Finite 0\<rparr>;
              invoice' = fst (Unmarshal E (Body resp) invoice)
          in ((OutstandingBalance invoice', None), w'))"

definition NewClient_p0 :: "string \<Rightarrow> InteractionMode \<Rightarrow> Credentials_p0 \<Rightarrow> Fusebill_p0" where
  "NewClient_p0 baseUrl mode credentials =
     \<lparr>BaseUrl_p0 = baseUrl, Mode = mode, Credentials_p0 = credentials,
      Client_p0 = \<lparr>Timeout = 0, Jar = None\<rparr>, cookieJar_p0 = None\<rparr>"

section \<open>Vocabulary of the properties\<close>

text \<open>
  The two requests the write-off flow puts on the wire, as the interface describes them:
  the login, a POST of the form-encoded credentials (keys in sorted order), and the
  write-off, a POST of a JSON payload.
\<close>

definition login_request :: "string \<Rightarrow> string \<Rightarrow> string \<Rightarrow> http_request" where
  "login_request baseUrl username password =
     \<lparr>rq_method = ''POST'', rq_url = baseUrl @ ''/api/Login/'',
      rq_header = [(''Content-Type'', ''application/x-www-form-urlencoded'')],
      rq_body = ''password='' @ QueryEscape password @ ''&username='' @ QueryEscape username\<rparr>"

definition writeoff_request :: "string \<Rightarrow> string \<Rightarrow> http_request" where
  "writeoff_request baseUrl payload =
     \<lparr>rq_method = ''POST'', rq_url = baseUrl @ ''/api/invoices/writeoff'',
      rq_header = [(''Content-Type'', ''application/json'')],
      rq_body = payload\<rparr>"

definition login_request_of :: "Fusebill \<Rightarrow> http_request" where
  "login_request_of f =
     login_request (BaseUrl f) (Username (Credentials f)) (Password (Credentials f))"

definition login_request_of_p0 :: "Fusebill_p0 \<Rightarrow> http_request" where
  "login_request_of_p0 f =
     login_request (BaseUrl_p0 f) (Username_p0 (Credentials_p0 f)) (Password_p0 (Credentials_p0 f))"

text \<open>
  The write-off request for an invoice ID and an amount: its payload is what
  \<^verbatim>\<open>json.Marshal\<close> returns for the ID as \<^verbatim>\<open>Atoi\<close> reads it.
\<close>

definition writeoff_request_of :: "env \<Rightarrow> string \<Rightarrow> string \<Rightarrow> float64 \<Rightarrow> http_request" where
  "writeoff_request_of E baseUrl invoiceID balance =
     writeoff_request baseUrl (fst (Marshal E \<lparr>InvoiceId = fst (Atoi invoiceID), Amount = balance\<rparr>))"

text \<open>
  The request \<open>SendRequest\<close> builds for a host and a token, and the message of the error
  it returns for a status other than 200.
\<close>

definition api_request :: "string \<Rightarrow> string \<Rightarrow> RequestDetails \<Rightarrow> http_request" where
  "api_request host token r =
     \<lparr>rq_method = (if Method r = [] then ''GET'' else Method r), rq_url = host @ Endpoint r,
      rq_header = [(''Content-Type'', ''application/json''), (''Authorization'', ''Basic '' @ token)],
      rq_body = (case RBody r of None \<Rightarrow> [] | Some b \<Rightarrow> b)\<rparr>"

definition failure_message :: "int \<Rightarrow> string \<Rightarrow> string" where
  "failure_message code content =
     ''Request failed with the status code: '' @ FormatInt code @ '', content: '' @ content"

definition get_invoice :: "string \<Rightarrow> RequestDetails" where
  "get_invoice invoiceID = \<lparr>Method = ''GET'', Endpoint = ''/invoices/'' @ invoiceID, RBody = None\<rparr>"

text \<open>
  \<open>answers E tr c rq resp\<close>: the request \<open>rq\<close>, dispatched by the HTTP client \<open>c\<close> after the
  requests \<open>tr\<close>, is accepted by \<^verbatim>\<open>http.NewRequest\<close> and the remote end answers it with
  the response \<open>resp\<close>. \<open>sent c rq w\<close> is the state \<open>w\<close> with that dispatch recorded.
\<close>

definition answers :: "env \<Rightarrow> (http_client \<times> http_request) list \<Rightarrow> http_client \<Rightarrow> http_request
    \<Rightarrow> http_response \<Rightarrow> bool" where
  "answers E tr c rq resp =
     (new_request_error E (rq_method rq) (rq_url rq) = None \<and> round_trip E tr c rq = Inr resp)"

definition sent :: "http_client \<Rightarrow> http_request \<Rightarrow> 'a world_scheme \<Rightarrow> 'a world_scheme" where
  "sent c rq w = w\<lparr>trace := trace w @ [(c, rq)]\<rparr>"

text \<open>
  The state in which the first login of \<^verbatim>\<open>part_000\<close> dispatches its request: a jar has
  been allocated and the package-level client that carries it has been stored.
\<close>

definition session_client :: "world_p0 \<Rightarrow> http_client" where
  "session_client w = \<lparr>Timeout = 0, Jar = Some (JarRef (jars w))\<rparr>"

definition session_opened :: "world_p0 \<Rightarrow> world_p0" where
  "session_opened w = w\<lparr>jars := Suc (jars w), client := Some (session_client w)\<rparr>"

text \<open>
  The life of a \<^verbatim>\<open>part_000\<close> client: any sequence of calls of its four methods, each on
  the client value and the state the call before it left.
\<close>

datatype call =
    CallLogin
  | CallWriteOff string float64
  | CallSendRequest RequestDetails
  | CallGetInvoiceBalance string

fun step_p0 :: "env \<Rightarrow> call \<Rightarrow> Fusebill_p0 \<times> world_p0 \<Rightarrow> Fusebill_p0 \<times> world_p0" where
  "step_p0 E CallLogin (f, w) = snd (login_p0 E f w)"
| "step_p0 E (CallWriteOff invoiceID balance) (f, w) = snd (WriteOff_p0 E f invoiceID balance w)"
| "step_p0 E (CallSendRequest r) (f, w) = (f, snd (SendRequest_p0 E f r w))"
| "step_p0 E (CallGetInvoiceBalance invoiceID) (f, w) = (f, snd (GetInvoiceBalance_p0 E f invoiceID w))"

fun run_p0 :: "env \<Rightarrow> call list \<Rightarrow> Fusebill_p0 \<times> world_p0 \<Rightarrow> Fusebill_p0 \<times> world_p0" where
  "run_p0 E [] s = s"
| "run_p0 E (c # cs) s = run_p0 E cs (step_p0 E c s)"

section \<open>Sample surroundings\<close>

text \<open>
  A remote end that answers by URL alone and refuses the connection for a URL it does
  not serve, with the outputs of the standard library on the few values the examples
  use. On the three sample bodies \<open>sample_unmarshal\<close> is encoding/json: the well-formed
  body stores its number; the body whose key comes twice stores the number of the first
  occurrence, skips the string of the second and reports the type mismatch
  (``Unmarshal skips that field and completes the unmarshaling as best it can''); any
  other body is taken as malformed and leaves the struct as it was.
\<close>

definition sample_f2 :: "float64 \<Rightarrow> string" where
  "sample_f2 x = (if x = Finite (- 5) then ''-5.00'' else if x = Finite 0 then ''0.00'' else ''1.00'')"

definition sample_json_float :: "real \<Rightarrow> string" where
  "sample_json_float r = (if r = 42.5 then ''42.5'' else ''1'')"

definition sample_unmarshal :: "string \<Rightarrow> Invoice \<Rightarrow> Invoice \<times> string option" where
  "sample_unmarshal b v =
     (if b = ''{\"outstandingBalance\": 42.5}'' then (v\<lparr>OutstandingBalance := Finite 42.5\<rparr>, None)
      else if b = ''{\"outstandingBalance\": 42.5, \"outstandingBalance\": \"x\"}''
      then (v\<lparr>OutstandingBalance := Finite 42.5\<rparr>,
            Some ''json: cannot unmarshal string into Go struct field Invoice.outstandingBalance of type float64'')
      else (v, Some ''invalid character looking for beginning of value''))"

definition sample_env :: "(string \<times> http_response) list \<Rightarrow> env" where
  "sample_env routes =
     \<lparr>new_request_error = (\<lambda>m u. None),
      round_trip = (\<lambda>tr c rq. case map_of routes (rq_url rq) of
                                  None \<Rightarrow> Inl ''connection refused''
                                | Some resp \<Rightarrow> Inr resp),
      json_unmarshal = sample_unmarshal,
      format_f2 = sample_f2,
      json_float = sample_json_float\<rparr>"

definition reply_ok :: "string \<Rightarrow> http_response" where
  "reply_ok b = \<lparr>rs_status = 200, rs_body = b, rs_body_err = None\<rparr>"

definition reply :: "int \<Rightarrow> string \<Rightarrow> http_response" where
  "reply n b = \<lparr>rs_status = n, rs_body = b, rs_body_err = None\<rparr>"

definition creds :: Credentials where
  "creds = \<lparr>Username = ''billing@example.com'', Password = ''s3cret pw'', Token = ''dG9rZW4=''\<rparr>"

definition creds_p0 :: Credentials_p0 where
  "creds_p0 = \<lparr>Username_p0 = ''billing@example.com'', Password_p0 = ''s3cret pw''\<rparr>"

definition mode_p0 :: InteractionMode where
  "mode_p0 = \<lparr>Token_p0 = ''dG9rZW4='', ApiHost = ''https://stg-secure.fusebill.com/v1''\<rparr>"

definition fresh_world :: world where
  "fresh_world = \<lparr>trace = [], jars = 0\<rparr>"

definition fresh_world_p0 :: world_p0 where
  "fresh_world_p0 = \<lparr>trace = [], jars = 0, client = None\<rparr>"

text \<open>
  A client of each revision on the staging host, and the state each is first used in:
  \<open>private_client\<close> comes with the jar its constructor allocated.
\<close>

definition private_client :: Fusebill where
  "private_client = fst (NewPrivateClient ''staging'' creds fresh_world)"

definition private_world :: world where
  "private_world = snd (NewPrivateClient ''staging'' creds fresh_world)"

definition client_p0 :: Fusebill_p0 where
  "client_p0 = NewClient_p0 ''https://stg-secure.fusebill.com'' mode_p0 creds_p0"

definition login_url :: string where
  "login_url = ''https://stg-secure.fusebill.com/api/Login/''"

definition writeoff_url :: string where
  "writeoff_url = ''https://stg-secure.fusebill.com/api/invoices/writeoff''"

text \<open>
  A client of the public API, and what the staging host answers for five invoices: a
  balance, a 404, a 200 whose body breaks off, a body with the key twice, and a page
  that is no JSON.
\<close>

definition public_client :: Fusebill where
  "public_client = NewClient ''staging'' creds"

definition invoice_url :: "string \<Rightarrow> string" where
  "invoice_url invoiceID = ''https://stg-secure.fusebill.com/v1/invoices/'' @ invoiceID"

definition cut_reply :: http_response where
  "cut_reply = \<lparr>rs_status = 200, rs_body = ''{\"outstandingBal'', rs_body_err = Some ''unexpected EOF''\<rparr>"

definition api_routes :: "(string \<times> http_response) list" where
  "api_routes =
     [(invoice_url ''17'', reply_ok ''{\"outstandingBalance\": 42.5}''),
      (invoice_url ''18'', reply 404 ''{\"message\":\"not found\"}''),
      (invoice_url ''19'', cut_reply),
      (invoice_url ''20'', reply_ok ''{\"outstandingBalance\": 42.5, \"outstandingBalance\": \"x\"}''),
      (invoice_url ''21'', reply_ok ''<html>maintenance</html>'')]"

text \<open>The \<^verbatim>\<open>part_000\<close> client and the state after its first login has been answered 200.\<close>

definition session_p0 :: "Fusebill_p0 \<times> world_p0" where
  "session_p0 = snd (login_p0 (sample_env [(login_url, reply_ok [])]) client_p0 fresh_world_p0)"

section \<open>Properties\<close>

subsection \<open>The requests the code builds\<close>

lemma QueryEscape_keys:
  "QueryEscape ''password'' = ''password''" "QueryEscape ''username'' = ''username''"
  by (simp_all add: QueryEscape_def escape_byte_def unreserved_def)

lemma Values_Encode_credentials:
  "Values_Encode (Values_Add ''password'' p (Values_Add ''username'' u [])) =
     ''password='' @ QueryEscape p @ ''&username='' @ QueryEscape u"
  by (simp add: Values_Encode_def Values_Add_def QueryEscape_keys)

lemma PostForm_login:
  assumes "new_request_error E ''POST'' (base @ ''/api/Login/'') = None"
  shows "PostForm E c (base @ ''/api/Login/'') (Values_Add ''password'' p (Values_Add ''username'' u [])) w =
           Do E c (login_request base u p) w"
  using assms
  by (simp add: PostForm_def NewRequest_def Header_Set_def login_request_def Values_Encode_credentials)

lemma Do_answers:
  assumes "answers E (trace w) c rq resp"
  shows "Do E c rq w = (Inr resp, sent c rq w)"
  using assms by (simp add: Do_def answers_def sent_def)

lemma gt_zero_not_le_zero: "f64_gt_zero x \<Longrightarrow> \<not> f64_le_zero x"
  by (cases x) (simp_all add: f64_gt_zero_def f64_le_zero_def)

subsection \<open>Login, when its request is answered\<close>

lemma login_answered:
  assumes "cookieJar f \<noteq> None"
    and "answers E (trace w) (Client f) (login_request_of f) resp"
  shows "login E f w =
           (if rs_status resp \<noteq> 200
            then Some (errorString ''unable to login, check you login and password'') else None,
            sent (Client f) (login_request_of f) w)"
proof -
  from assms(2) have acc: "new_request_error E ''POST'' (BaseUrl f @ ''/api/Login/'') = None"
    by (simp add: answers_def login_request_def login_request_of_def)
  have "Do E (Client f) (login_request_of f) w = (Inr resp, sent (Client f) (login_request_of f) w)"
    using assms(2) by (rule Do_answers)
  with assms(1) acc show ?thesis
    by (simp add: login_def PostForm_login login_request_of_def)
qed

lemma login_p0_answered:
  assumes "cookieJar_p0 f = None"
    and "answers E (trace w) (session_client w) (login_request_of_p0 f) resp"
  shows "login_p0 E f w =
           (if rs_status resp \<noteq> 200
            then Some (errorString ''unable to login, check you login and password'') else None,
            f\<lparr>cookieJar_p0 := Some (JarRef (jars w))\<rparr>,
            sent (session_client w) (login_request_of_p0 f) (session_opened w))"
proof -
  from assms(2) have acc: "new_request_error E ''POST'' (BaseUrl_p0 f @ ''/api/Login/'') = None"
    by (simp add: answers_def login_request_def login_request_of_p0_def)
  have "answers E (trace (session_opened w)) (session_client w) (login_request_of_p0 f) resp"
    using assms(2) by (simp add: session_opened_def)
  then have "Do E (session_client w) (login_request_of_p0 f) (session_opened w) =
               (Inr resp, sent (session_client w) (login_request_of_p0 f) (session_opened w))"
    by (rule Do_answers)
  with assms(1) acc show ?thesis
    by (simp add: login_p0_def PostForm_login cookiejar_New_def session_client_def
        session_opened_def login_request_of_p0_def Let_def)
qed

subsection \<open>The write-off, once login has returned nil\<close>

lemma WriteOff_after_login:
  assumes "\<not> f64_le_zero balance"
    and "login E f w = (None, w1)"
    and "answers E (trace w1) (Client f) (writeoff_request_of E (BaseUrl f) invoiceID balance) resp"
  shows "WriteOff E f invoiceID balance w =
           (if rs_status resp \<noteq> 200
            then Some (errorString (''server returns '' @ FormatInt (rs_status resp)
                         @ ''; message '' @ rs_body resp))
            else None,
            sent (Client f) (writeoff_request_of E (BaseUrl f) invoiceID balance) w1)"
proof -
  let ?rq = "writeoff_request_of E (BaseUrl f) invoiceID balance"
  from assms(3) have acc: "new_request_error E ''POST'' (BaseUrl f @ ''/api/invoices/writeoff'') = None"
    by (simp add: answers_def writeoff_request_of_def writeoff_request_def)
  have "Do E (Client f) ?rq w1 = (Inr resp, sent (Client f) ?rq w1)"
    using assms(3) by (rule Do_answers)
  with assms(1,2) acc show ?thesis
    by (simp add: WriteOff_def NewRequest_def Header_Set_def writeoff_request_of_def
        writeoff_request_def ReadAll_def Let_def)
qed

lemma WriteOff_p0_after_login:
  assumes "\<not> f64_le_zero balance"
    and "login_p0 E f w = (None, f1, w1)"
    and "client w1 = Some c"
    and "answers E (trace w1) c (writeoff_request_of E (BaseUrl_p0 f1) invoiceID balance) resp"
  shows "WriteOff_p0 E f invoiceID balance w =
           (if rs_status resp \<noteq> 200
            then Some (errorString (''server returns '' @ FormatInt (rs_status resp)
                         @ ''; message '' @ rs_body resp))
            else None,
            f1, sent c (writeoff_request_of E (BaseUrl_p0 f1) invoiceID balance) w1)"
proof -
  let ?rq = "writeoff_request_of E (BaseUrl_p0 f1) invoiceID balance"
  from assms(4) have acc: "new_request_error E ''POST'' (BaseUrl_p0 f1 @ ''/api/invoices/writeoff'') = None"
    by (simp add: answers_def writeoff_request_of_def writeoff_request_def)
  have "Do E c ?rq w1 = (Inr resp, sent c ?rq w1)"
    using assms(4) by (rule Do_answers)
  with assms(1,2,3) acc show ?thesis
    by (simp add: WriteOff_p0_def NewRequest_def Header_Set_def writeoff_request_of_def
        writeoff_request_def ReadAll_def Let_def)
qed

subsection \<open>Login and the cookie jar in \<^verbatim>\<open>fusebill.go\<close>\<close>

lemma login_without_jar:
  "cookieJar f = None \<Longrightarrow> login E f w = (Some (errorString ''cookie jar should be set''), w)"
  by (simp add: login_def)

lemma login_nil_has_jar: "fst (login E f w) = None \<Longrightarrow> cookieJar f \<noteq> None"
  by (cases "cookieJar f") (simp_all add: login_def)

lemma WriteOff_nil_has_jar:
  "fst (WriteOff E f invoiceID balance w) = None \<Longrightarrow> cookieJar f \<noteq> None"
  by (cases "cookieJar f") (simp_all add: WriteOff_def login_def split: if_splits)

subsection \<open>The cookie jar over the life of a \<^verbatim>\<open>part_000\<close> client\<close>

lemma login_p0_with_jar:
  "cookieJar_p0 f \<noteq> None \<Longrightarrow> login_p0 E f w = (None, f, w)"
  by (simp add: login_p0_def)

lemma step_p0_keeps_jar:
  assumes "cookieJar_p0 f = Some j"
  shows "cookieJar_p0 (fst (step_p0 E c (f, w))) = Some j"
proof (cases c)
  case CallLogin
  with assms show ?thesis
    by (simp add: login_p0_with_jar)
next
  case (CallWriteOff invoiceID balance)
  from assms have "login_p0 E f w = (None, f, w)"
    by (simp add: login_p0_with_jar)
  with assms CallWriteOff show ?thesis
    by (simp add: WriteOff_p0_def Let_def split: sum.splits option.splits prod.splits)
next
  case (CallSendRequest r)
  with assms show ?thesis by simp
next
  case (CallGetInvoiceBalance invoiceID)
  with assms show ?thesis by simp
qed

lemma run_p0_keeps_jar:
  "cookieJar_p0 (fst s) = Some j \<Longrightarrow> cookieJar_p0 (fst (run_p0 E cs s)) = Some j"
proof (induction cs arbitrary: s)
  case Nil
  then show ?case by simp
next
  case (Cons c cs)
  from Cons.prems have "cookieJar_p0 (fst (step_p0 E c (fst s, snd s))) = Some j"
    by (rule step_p0_keeps_jar)
  then have "cookieJar_p0 (fst (step_p0 E c s)) = Some j"
    by simp
  then show ?case
    by (simp add: Cons.IH)
qed

subsection \<open>Requests to the public API\<close>

lemma SendRequest_answered:
  assumes "answers E (trace w) (Client f) (api_request (BaseUrl f) (Token (Credentials f)) r) resp"
  shows "SendRequest E f r w =
           (if rs_status resp \<noteq> 200
            then (\<lparr>Body = [], StatusCode = 0\<rparr>,
                  Some (errorString (failure_message (rs_status resp) (rs_body resp))))
            else case rs_body_err resp of
                   Some e \<Rightarrow> (\<lparr>Body = [], StatusCode = 0\<rparr>, Some (ExternalError e))
                 | None \<Rightarrow> (\<lparr>Body = rs_body resp, StatusCode = rs_status resp\<rparr>, None),
            sent (Client f) (api_request (BaseUrl f) (Token (Credentials f)) r) w)"
proof -
  let ?rq = "api_request (BaseUrl f) (Token (Credentials f)) r"
  from assms have acc:
    "new_request_error E (if Method r = [] then ''GET'' else Method r) (BaseUrl f @ Endpoint r) = None"
    by (simp add: answers_def api_request_def)
  have "Do E (Client f) ?rq w = (Inr resp, sent (Client f) ?rq w)"
    using assms by (rule Do_answers)
  with acc show ?thesis
    by (simp add: SendRequest_def NewRequest_def Header_Add_def api_request_def ReadAll_def
        failure_message_def Let_def split: option.splits)
qed

lemma SendRequest_p0_answered:
  assumes "answers E (trace w) (Client_p0 f) (api_request (ApiHost (Mode f)) (Token_p0 (Mode f)) r) resp"
  shows "SendRequest_p0 E f r w =
           (if rs_status resp \<noteq> 200
            then (\<lparr>Body = [], StatusCode = 0\<rparr>,
                  Some (errorString (failure_message (rs_status resp) (rs_body resp))))
            else case rs_body_err resp of
                   Some e \<Rightarrow> (\<lparr>Body = [], StatusCode = 0\<rparr>, Some (ExternalError e))
                 | None \<Rightarrow> (\<lparr>Body = rs_body resp, StatusCode = rs_status resp\<rparr>, None),
            sent (Client_p0 f) (api_request (ApiHost (Mode f)) (Token_p0 (Mode f)) r) w)"
proof -
  let ?rq = "api_request (ApiHost (Mode f)) (Token_p0 (Mode f)) r"
  from assms have acc:
    "new_request_error E (if Method r = [] then ''GET'' else Method r) (ApiHost (Mode f) @ Endpoint r) = None"
    by (simp add: answers_def api_request_def)
  have "Do E (Client_p0 f) ?rq w = (Inr resp, sent (Client_p0 f) ?rq w)"
    using assms by (rule Do_answers)
  with acc show ?thesis
    by (simp add: SendRequest_p0_def NewRequest_def Header_Add_def api_request_def ReadAll_def
        failure_message_def Let_def split: option.splits)
qed

lemma failure_message_contains:
  "sublist (FormatInt code) (failure_message code content)"
  "sublist content (failure_message code content)"
proof -
  have "failure_message code content =
          ''Request failed with the status code: '' @ FormatInt code @ ('', content: '' @ content)"
    by (simp add: failure_message_def)
  then show "sublist (FormatInt code) (failure_message code content)"
    by (simp only: sublist_appendI)
  have "failure_message code content =
          (''Request failed with the status code: '' @ FormatInt code @ '', content: '') @ content @ []"
    by (simp add: failure_message_def)
  then show "sublist content (failure_message code content)"
    by (simp only: sublist_appendI)
qed

lemma GetInvoiceBalance_decoded:
  assumes "SendRequest E f (get_invoice invoiceID) w = ((resp, None), w1)"
    and "json_unmarshal E (Body resp) \<lparr>OutstandingBalance = Finite 0\<rparr> = (v, e)"
  shows "GetInvoiceBalance E f invoiceID w = ((OutstandingBalance v, None), w1)"
  using assms by (simp add: GetInvoiceBalance_def get_invoice_def Unmarshal_def Let_def)

lemma GetInvoiceBalance_p0_decoded:
  assumes "SendRequest_p0 E f (get_invoice invoiceID) w = ((resp, None), w1)"
    and "json_unmarshal E (Body resp) \<lparr>OutstandingBalance = Finite 0\<rparr> = (v, e)"
  shows "GetInvoiceBalance_p0 E f invoiceID w = ((OutstandingBalance v, None), w1)"
  using assms by (simp add: GetInvoiceBalance_p0_def get_invoice_def Unmarshal_def Let_def)

subsection \<open>The invoice ID in the write-off payload\<close>

lemma ParseInt_syntax_zero: "snd (ParseInt s) = Some ErrSyntax \<Longrightarrow> fst (ParseInt s) = 0"
  by (auto simp add: ParseInt_def Let_def split: if_splits prod.splits option.splits num_err.splits)

lemma Atoi_syntax_zero:
  assumes "snd (Atoi s) = Some (NumError fn num ErrSyntax)"
  shows "fst (Atoi s) = 0"
proof (cases "0 < length s \<and> length s < 19")
  case True
  with assms show ?thesis
    by (auto simp add: Atoi_def Let_def split: if_splits option.splits)
next
  case False
  with assms have "snd (ParseInt s) = Some ErrSyntax"
    by (auto simp add: Atoi_def split: prod.splits option.splits)
  then have "fst (ParseInt s) = 0"
    by (rule ParseInt_syntax_zero)
  with False show ?thesis
    by (auto simp add: Atoi_def split: prod.splits option.splits)
qed

lemma FormatInt_zero: "FormatInt 0 = ''0''"
  by (simp add: FormatInt_def decimal.simps)

lemma writeoff_request_of_syntax_error:
  assumes "snd (Atoi invoiceID) = Some (NumError fn num ErrSyntax)"
  shows "writeoff_request_of E baseUrl invoiceID (Finite r) =
           writeoff_request baseUrl (''{\"invoiceId\":0,\"amount\":'' @ json_float E r @ ''}'')"
  using Atoi_syntax_zero [OF assms]
  by (simp add: writeoff_request_of_def Marshal_def FormatInt_zero)

lemma WriteOff_dispatches:
  assumes "\<not> f64_le_zero balance"
    and "login E f w = (None, w1)"
    and "new_request_error E ''POST'' (BaseUrl f @ ''/api/invoices/writeoff'') = None"
  shows "trace (snd (WriteOff E f invoiceID balance w)) =
           trace w1 @ [(Client f, writeoff_request_of E (BaseUrl f) invoiceID balance)]"
  using assms
  by (simp add: WriteOff_def NewRequest_def Header_Set_def Do_def writeoff_request_of_def
      writeoff_request_def Let_def split: sum.splits)

lemma WriteOff_p0_dispatches:
  assumes "\<not> f64_le_zero balance"
    and "login_p0 E f w = (None, f1, w1)"
    and "client w1 = Some c"
    and "new_request_error E ''POST'' (BaseUrl_p0 f1 @ ''/api/invoices/writeoff'') = None"
  shows "trace (snd (snd (WriteOff_p0 E f invoiceID balance w))) =
           trace w1 @ [(c, writeoff_request_of E (BaseUrl_p0 f1) invoiceID balance)]"
  using assms
  by (simp add: WriteOff_p0_def NewRequest_def Header_Set_def Do_def writeoff_request_of_def
      writeoff_request_def Let_def split: sum.splits)

lemma Atoi_no_digit_first:
  assumes "s \<noteq> []" and "\<not> is_digit (hd s)" and "hd s \<noteq> CHR ''+''" and "hd s \<noteq> CHR ''-''"
  shows "Atoi s = (0, Some (NumError ''Atoi'' s ErrSyntax))"
proof -
  from assms obtain c cs where s: "s = c # cs" "\<not> is_digit c" "c \<noteq> CHR ''+''" "c \<noteq> CHR ''-''"
    by (cases s) auto
  then show ?thesis
    by (simp add: Atoi_def ParseInt_def ParseUint_def)
qed

subsection \<open>The samples\<close>

lemma sample_answers:
  "map_of routes (rq_url rq) = Some resp \<Longrightarrow> answers (sample_env routes) tr c rq resp"
  by (simp add: answers_def sample_env_def)

lemma sample_urls:
  "rq_url (login_request_of private_client) = login_url"
  "rq_url (login_request_of_p0 client_p0) = login_url"
  "rq_url (writeoff_request_of E (BaseUrl private_client) i b) = writeoff_url"
  "rq_url (writeoff_request_of E (BaseUrl_p0 client_p0) i b) = writeoff_url"
  by (simp_all add: login_request_of_def login_request_of_p0_def login_request_def
      writeoff_request_of_def writeoff_request_def private_client_def client_p0_def
      NewPrivateClient_def NewClient_p0_def cookiejar_New_def login_url_def writeoff_url_def)

lemma sample_jars:
  "cookieJar private_client = Some (JarRef 0)" "cookieJar_p0 client_p0 = None"
  by (simp_all add: private_client_def client_p0_def NewPrivateClient_def NewClient_p0_def
      cookiejar_New_def fresh_world_def)

lemma login_url_neq: "login_url \<noteq> writeoff_url" "writeoff_url \<noteq> login_url"
  by (simp_all add: login_url_def writeoff_url_def)

section \<open>The claims\<close>

text \<open>
  C1. For every invoice ID and every amount \<open>\<le> 0\<close>, \<open>WriteOff\<close> returns the validation
  error at once: nothing is dispatched, and the client value and the state outside it
  are as they were. Both revisions.
\<close>

theorem WriteOff_nonpositive_amount:
  assumes "f64_le_zero balance"
  shows "WriteOff E f invoiceID balance w =
           (Some (errorString (''Invoice '' @ invoiceID @ '': outstandingBalance is ''
                               @ format_f2 E balance)), w)
       \<and> WriteOff_p0 E f' invoiceID balance w' =
           (Some (errorString (''Invoice '' @ invoiceID @ '': outstandingBalance is ''
                               @ format_f2 E balance)), f', w')"
  using assms by (simp add: WriteOff_def WriteOff_p0_def)

theorem WriteOff_nonpositive_amount_witness:
  "f64_le_zero (Finite (- 5))
   \<and> WriteOff (sample_env []) (fst (NewPrivateClient ''production'' creds fresh_world)) ''17'' (Finite (- 5)) fresh_world =
       (Some (errorString ''Invoice 17: outstandingBalance is -5.00''), fresh_world)
   \<and> WriteOff_p0 (sample_env []) (NewClient_p0 ''https://stg-secure.fusebill.com'' mode_p0 creds_p0)
         ''17'' (Finite (- 5)) fresh_world_p0 =
       (Some (errorString ''Invoice 17: outstandingBalance is -5.00''),
        NewClient_p0 ''https://stg-secure.fusebill.com'' mode_p0 creds_p0, fresh_world_p0)"
proof -
  have h: "f64_le_zero (Finite (- 5))"
    by (simp add: f64_le_zero_def)
  show ?thesis
    using h WriteOff_nonpositive_amount [OF h, of "sample_env []"
        "fst (NewPrivateClient ''production'' creds fresh_world)" "''17''" fresh_world
        "NewClient_p0 ''https://stg-secure.fusebill.com'' mode_p0 creds_p0" fresh_world_p0]
    by (simp add: sample_env_def sample_f2_def)
qed

text \<open>
  C4. For every positive amount, if the login request is answered with a status other
  than 200 then \<open>WriteOff\<close> returns the authentication error and the login is the only
  request dispatched: the write-off POST is not sent. Both revisions; the login request
  is dispatched when the jar is present (\<^verbatim>\<open>fusebill.go\<close>), or absent (\<^verbatim>\<open>part_000\<close>).
\<close>

theorem WriteOff_login_rejected:
  "(f64_gt_zero balance \<and> cookieJar f \<noteq> None
      \<and> answers E (trace w) (Client f) (login_request_of f) resp \<and> rs_status resp \<noteq> 200
    \<longrightarrow> WriteOff E f invoiceID balance w =
          (Some (errorString ''unable to login, check you login and password''),
           w\<lparr>trace := trace w @ [(Client f, login_request_of f)]\<rparr>))
   \<and> (f64_gt_zero balance \<and> cookieJar_p0 f' = None
      \<and> answers E (trace w') (session_client w') (login_request_of_p0 f') resp' \<and> rs_status resp' \<noteq> 200
    \<longrightarrow> WriteOff_p0 E f' invoiceID balance w' =
          (Some (errorString ''unable to login, check you login and password''),
           f'\<lparr>cookieJar_p0 := Some (JarRef (jars w'))\<rparr>,
           w'\<lparr>trace := trace w' @ [(session_client w', login_request_of_p0 f')],
              jars := Suc (jars w'), client := Some (session_client w')\<rparr>))"
proof (intro conjI impI)
  assume a: "f64_gt_zero balance \<and> cookieJar f \<noteq> None
      \<and> answers E (trace w) (Client f) (login_request_of f) resp \<and> rs_status resp \<noteq> 200"
  then have "\<not> f64_le_zero balance"
    by (simp add: gt_zero_not_le_zero)
  moreover have "login E f w =
      (Some (errorString ''unable to login, check you login and password''),
       sent (Client f) (login_request_of f) w)"
    using login_answered [of f E w resp] a by simp
  ultimately show "WriteOff E f invoiceID balance w =
          (Some (errorString ''unable to login, check you login and password''),
           w\<lparr>trace := trace w @ [(Client f, login_request_of f)]\<rparr>)"
    by (simp add: WriteOff_def sent_def)
next
  assume a: "f64_gt_zero balance \<and> cookieJar_p0 f' = None
      \<and> answers E (trace w') (session_client w') (login_request_of_p0 f') resp' \<and> rs_status resp' \<noteq> 200"
  then have "\<not> f64_le_zero balance"
    by (simp add: gt_zero_not_le_zero)
  moreover have "login_p0 E f' w' =
      (Some (errorString ''unable to login, check you login and password''),
       f'\<lparr>cookieJar_p0 := Some (JarRef (jars w'))\<rparr>,
       sent (session_client w') (login_request_of_p0 f') (session_opened w'))"
    using login_p0_answered [of f' E w' resp'] a by simp
  ultimately show "WriteOff_p0 E f' invoiceID balance w' =
          (Some (errorString ''unable to login, check you login and password''),
           f'\<lparr>cookieJar_p0 := Some (JarRef (jars w'))\<rparr>,
           w'\<lparr>trace := trace w' @ [(session_client w', login_request_of_p0 f')],
              jars := Suc (jars w'), client := Some (session_client w')\<rparr>)"
    by (simp add: WriteOff_p0_def sent_def session_opened_def)
qed

theorem WriteOff_login_rejected_witness:
  "(f64_gt_zero (Finite 1) \<and> cookieJar private_client \<noteq> None
      \<and> answers (sample_env [(login_url, reply 401 ''denied'')]) (trace private_world) (Client private_client)
            (login_request_of private_client) (reply 401 ''denied'')
      \<and> rs_status (reply 401 ''denied'') \<noteq> 200)
   \<and> WriteOff (sample_env [(login_url, reply 401 ''denied'')]) private_client ''17'' (Finite 1) private_world =
        (Some (errorString ''unable to login, check you login and password''),
         private_world\<lparr>trace := trace private_world @ [(Client private_client, login_request_of private_client)]\<rparr>)
   \<and> (f64_gt_zero (Finite 1) \<and> cookieJar_p0 client_p0 = None
      \<and> answers (sample_env [(login_url, reply 401 ''denied'')]) (trace fresh_world_p0) (session_client fresh_world_p0)
            (login_request_of_p0 client_p0) (reply 401 ''denied'')
      \<and> rs_status (reply 401 ''denied'') \<noteq> 200)
   \<and> WriteOff_p0 (sample_env [(login_url, reply 401 ''denied'')]) client_p0 ''17'' (Finite 1) fresh_world_p0 =
        (Some (errorString ''unable to login, check you login and password''),
         client_p0\<lparr>cookieJar_p0 := Some (JarRef (jars fresh_world_p0))\<rparr>,
         fresh_world_p0\<lparr>trace := trace fresh_world_p0 @ [(session_client fresh_world_p0, login_request_of_p0 client_p0)],
               jars := Suc (jars fresh_world_p0), client := Some (session_client fresh_world_p0)\<rparr>)"
proof -
  let ?E = "sample_env [(login_url, reply 401 ''denied'')]"
  have h: "f64_gt_zero (Finite 1) \<and> cookieJar private_client \<noteq> None
      \<and> answers ?E (trace private_world) (Client private_client) (login_request_of private_client) (reply 401 ''denied'')
      \<and> rs_status (reply 401 ''denied'') \<noteq> 200"
    by (simp add: f64_gt_zero_def private_client_def NewPrivateClient_def cookiejar_New_def
        answers_def sample_env_def login_request_of_def login_request_def login_url_def
        reply_def fresh_world_def private_world_def)
  have h': "f64_gt_zero (Finite 1) \<and> cookieJar_p0 client_p0 = None
      \<and> answers ?E (trace fresh_world_p0) (session_client fresh_world_p0) (login_request_of_p0 client_p0) (reply 401 ''denied'')
      \<and> rs_status (reply 401 ''denied'') \<noteq> 200"
    by (simp add: f64_gt_zero_def client_p0_def NewClient_p0_def answers_def sample_env_def
        login_request_of_p0_def login_request_def login_url_def reply_def)
  from h h' WriteOff_login_rejected [where balance = "Finite 1" and f = private_client and E = ?E
      and w = private_world and resp = "reply 401 ''denied''" and f' = client_p0 and w' = fresh_world_p0
      and resp' = "reply 401 ''denied''" and invoiceID = "''17''"]
  show ?thesis by blast
qed

text \<open>
  C7. For every positive amount, if the login request is answered with 200 and the
  write-off POST that follows it is answered with 200, \<open>WriteOff\<close> returns nil; the two
  requests are all it dispatched. Both revisions.
\<close>

theorem WriteOff_both_accepted:
  "(f64_gt_zero balance \<and> cookieJar f \<noteq> None
      \<and> answers E (trace w) (Client f) (login_request_of f) r1 \<and> rs_status r1 = 200
      \<and> answers E (trace w @ [(Client f, login_request_of f)]) (Client f)
            (writeoff_request_of E (BaseUrl f) invoiceID balance) r2
      \<and> rs_status r2 = 200
    \<longrightarrow> WriteOff E f invoiceID balance w =
          (None, w\<lparr>trace := trace w @ [(Client f, login_request_of f),
                      (Client f, writeoff_request_of E (BaseUrl f) invoiceID balance)]\<rparr>))
   \<and> (f64_gt_zero balance \<and> cookieJar_p0 f' = None
      \<and> answers E (trace w') (session_client w') (login_request_of_p0 f') r1' \<and> rs_status r1' = 200
      \<and> answers E (trace w' @ [(session_client w', login_request_of_p0 f')]) (session_client w')
            (writeoff_request_of E (BaseUrl_p0 f') invoiceID balance) r2'
      \<and> rs_status r2' = 200
    \<longrightarrow> WriteOff_p0 E f' invoiceID balance w' =
          (None, f'\<lparr>cookieJar_p0 := Some (JarRef (jars w'))\<rparr>,
           w'\<lparr>trace := trace w' @ [(session_client w', login_request_of_p0 f'),
                       (session_client w', writeoff_request_of E (BaseUrl_p0 f') invoiceID balance)],
              jars := Suc (jars w'), client := Some (session_client w')\<rparr>))"
proof (intro conjI impI)
  let ?w1 = "sent (Client f) (login_request_of f) w"
  assume a: "f64_gt_zero balance \<and> cookieJar f \<noteq> None
      \<and> answers E (trace w) (Client f) (login_request_of f) r1 \<and> rs_status r1 = 200
      \<and> answers E (trace w @ [(Client f, login_request_of f)]) (Client f)
            (writeoff_request_of E (BaseUrl f) invoiceID balance) r2
      \<and> rs_status r2 = 200"
  then have pos: "\<not> f64_le_zero balance"
    by (simp add: gt_zero_not_le_zero)
  have l: "login E f w = (None, ?w1)"
    using login_answered [of f E w r1] a by simp
  have "answers E (trace ?w1) (Client f) (writeoff_request_of E (BaseUrl f) invoiceID balance) r2"
    using a by (simp add: sent_def)
  from WriteOff_after_login [OF pos l this] a
  show "WriteOff E f invoiceID balance w =
          (None, w\<lparr>trace := trace w @ [(Client f, login_request_of f),
                      (Client f, writeoff_request_of E (BaseUrl f) invoiceID balance)]\<rparr>)"
    by (simp add: sent_def)
next
  let ?c = "session_client w'"
  let ?f1 = "f'\<lparr>cookieJar_p0 := Some (JarRef (jars w'))\<rparr>"
  let ?w1 = "sent ?c (login_request_of_p0 f') (session_opened w')"
  assume a: "f64_gt_zero balance \<and> cookieJar_p0 f' = None
      \<and> answers E (trace w') (session_client w') (login_request_of_p0 f') r1' \<and> rs_status r1' = 200
      \<and> answers E (trace w' @ [(session_client w', login_request_of_p0 f')]) (session_client w')
            (writeoff_request_of E (BaseUrl_p0 f') invoiceID balance) r2'
      \<and> rs_status r2' = 200"
  then have pos: "\<not> f64_le_zero balance"
    by (simp add: gt_zero_not_le_zero)
  have l: "login_p0 E f' w' = (None, ?f1, ?w1)"
    using login_p0_answered [of f' E w' r1'] a by simp
  have c: "client ?w1 = Some ?c"
    by (simp add: sent_def session_opened_def)
  have "answers E (trace ?w1) ?c (writeoff_request_of E (BaseUrl_p0 ?f1) invoiceID balance) r2'"
    using a by (simp add: sent_def session_opened_def)
  from WriteOff_p0_after_login [OF pos l c this] a
  show "WriteOff_p0 E f' invoiceID balance w' =
          (None, f'\<lparr>cookieJar_p0 := Some (JarRef (jars w'))\<rparr>,
           w'\<lparr>trace := trace w' @ [(session_client w', login_request_of_p0 f'),
                       (session_client w', writeoff_request_of E (BaseUrl_p0 f') invoiceID balance)],
              jars := Suc (jars w'), client := Some (session_client w')\<rparr>)"
    by (simp add: sent_def session_opened_def)
qed

theorem WriteOff_both_accepted_witness:
  "(f64_gt_zero (Finite 1) \<and> cookieJar private_client \<noteq> None
      \<and> answers (sample_env [(login_url, reply_ok []), (writeoff_url, reply_ok [])]) (trace private_world)
            (Client private_client) (login_request_of private_client) (reply_ok [])
      \<and> rs_status (reply_ok []) = 200
      \<and> answers (sample_env [(login_url, reply_ok []), (writeoff_url, reply_ok [])])
            (trace private_world @ [(Client private_client, login_request_of private_client)])
            (Client private_client)
            (writeoff_request_of (sample_env [(login_url, reply_ok []), (writeoff_url, reply_ok [])])
               (BaseUrl private_client) ''17'' (Finite 1)) (reply_ok []))
   \<and> fst (WriteOff (sample_env [(login_url, reply_ok []), (writeoff_url, reply_ok [])])
             private_client ''17'' (Finite 1) private_world) = None
   \<and> (cookieJar_p0 client_p0 = None
      \<and> answers (sample_env [(login_url, reply_ok []), (writeoff_url, reply_ok [])]) (trace fresh_world_p0)
            (session_client fresh_world_p0) (login_request_of_p0 client_p0) (reply_ok [])
      \<and> answers (sample_env [(login_url, reply_ok []), (writeoff_url, reply_ok [])])
            (trace fresh_world_p0 @ [(session_client fresh_world_p0, login_request_of_p0 client_p0)])
            (session_client fresh_world_p0)
            (writeoff_request_of (sample_env [(login_url, reply_ok []), (writeoff_url, reply_ok [])])
               (BaseUrl_p0 client_p0) ''17'' (Finite 1)) (reply_ok []))
   \<and> fst (WriteOff_p0 (sample_env [(login_url, reply_ok []), (writeoff_url, reply_ok [])])
             client_p0 ''17'' (Finite 1) fresh_world_p0) = None"
proof -
  let ?E = "sample_env [(login_url, reply_ok []), (writeoff_url, reply_ok [])]"
  have h: "f64_gt_zero (Finite 1) \<and> cookieJar private_client \<noteq> None
      \<and> answers ?E (trace private_world) (Client private_client) (login_request_of private_client) (reply_ok [])
      \<and> rs_status (reply_ok []) = 200
      \<and> answers ?E (trace private_world @ [(Client private_client, login_request_of private_client)])
            (Client private_client)
            (writeoff_request_of ?E (BaseUrl private_client) ''17'' (Finite 1)) (reply_ok [])
      \<and> rs_status (reply_ok []) = 200"
    by (simp add: f64_gt_zero_def sample_answers sample_urls sample_jars login_url_neq reply_ok_def)
  have h': "f64_gt_zero (Finite 1) \<and> cookieJar_p0 client_p0 = None
      \<and> answers ?E (trace fresh_world_p0) (session_client fresh_world_p0) (login_request_of_p0 client_p0) (reply_ok [])
      \<and> rs_status (reply_ok []) = 200
      \<and> answers ?E (trace fresh_world_p0 @ [(session_client fresh_world_p0, login_request_of_p0 client_p0)])
            (session_client fresh_world_p0)
            (writeoff_request_of ?E (BaseUrl_p0 client_p0) ''17'' (Finite 1)) (reply_ok [])
      \<and> rs_status (reply_ok []) = 200"
    by (simp add: f64_gt_zero_def sample_answers sample_urls sample_jars login_url_neq reply_ok_def)
  from h h' WriteOff_both_accepted [where balance = "Finite 1" and f = private_client and E = ?E
      and w = private_world and ?r1.0 = "reply_ok []" and ?r2.0 = "reply_ok []" and f' = client_p0
      and w' = fresh_world_p0 and r1' = "reply_ok []" and r2' = "reply_ok []" and invoiceID = "''17''"]
  show ?thesis by simp
qed

text \<open>
  C10. In \<^verbatim>\<open>fusebill.go\<close>, \<open>login\<close> returns the error ``cookie jar should be set''
  whenever the jar is nil, and dispatches nothing. \<open>NewClient\<close> never sets the jar, so on
  every client it builds \<open>WriteOff\<close> with a positive amount fails with that error before
  any request. A login or a write-off that returns nil was made on a client with a jar,
  and of the two constructors only \<open>NewPrivateClient\<close> sets one.
\<close>

theorem login_needs_cookie_jar:
  "(cookieJar f = None \<longrightarrow> login E f w = (Some (errorString ''cookie jar should be set''), w))
   \<and> cookieJar (NewClient mode credentials) = None
   \<and> (f64_gt_zero balance \<longrightarrow>
        WriteOff E (NewClient mode credentials) invoiceID balance w =
          (Some (errorString ''cookie jar should be set''), w))
   \<and> (fst (login E g v) = None \<longrightarrow> cookieJar g \<noteq> None)
   \<and> (fst (WriteOff E g invoiceID balance v) = None \<longrightarrow> cookieJar g \<noteq> None)
   \<and> cookieJar (fst (NewPrivateClient mode credentials w)) \<noteq> None"
proof (intro conjI impI)
  show "cookieJar (NewClient mode credentials) = None"
    by (simp add: NewClient_def)
  then have l: "login E (NewClient mode credentials) w = (Some (errorString ''cookie jar should be set''), w)"
    by (rule login_without_jar)
  show "cookieJar f = None \<Longrightarrow> login E f w = (Some (errorString ''cookie jar should be set''), w)"
    by (rule login_without_jar)
  show "f64_gt_zero balance \<Longrightarrow>
        WriteOff E (NewClient mode credentials) invoiceID balance w =
          (Some (errorString ''cookie jar should be set''), w)"
    using l by (simp add: WriteOff_def gt_zero_not_le_zero)
  show "fst (login E g v) = None \<Longrightarrow> cookieJar g \<noteq> None"
    by (rule login_nil_has_jar)
  show "fst (WriteOff E g invoiceID balance v) = None \<Longrightarrow> cookieJar g \<noteq> None"
    by (rule WriteOff_nil_has_jar)
  show "cookieJar (fst (NewPrivateClient mode credentials w)) \<noteq> None"
    by (simp add: NewPrivateClient_def cookiejar_New_def)
qed

theorem login_needs_cookie_jar_witness:
  "cookieJar (NewClient ''production'' creds) = None
   \<and> login (sample_env [(login_url, reply_ok []), (writeoff_url, reply_ok [])])
        (NewClient ''production'' creds) fresh_world =
        (Some (errorString ''cookie jar should be set''), fresh_world)
   \<and> f64_gt_zero (Finite 1)
   \<and> WriteOff (sample_env [(login_url, reply_ok []), (writeoff_url, reply_ok [])])
        (NewClient ''production'' creds) ''17'' (Finite 1) fresh_world =
        (Some (errorString ''cookie jar should be set''), fresh_world)
   \<and> fst (login (sample_env [(login_url, reply_ok []), (writeoff_url, reply_ok [])])
             private_client private_world) = None
   \<and> fst (WriteOff (sample_env [(login_url, reply_ok []), (writeoff_url, reply_ok [])])
             private_client ''17'' (Finite 1) private_world) = None
   \<and> cookieJar private_client \<noteq> None
   \<and> cookieJar (fst (NewPrivateClient ''production'' creds fresh_world)) \<noteq> None"
proof -
  let ?E = "sample_env [(login_url, reply_ok []), (writeoff_url, reply_ok [])]"
  have h1: "cookieJar (NewClient ''production'' creds) = None"
    by (simp add: NewClient_def)
  have h2: "f64_gt_zero (Finite 1)"
    by (simp add: f64_gt_zero_def)
  have h3: "fst (login ?E private_client private_world) = None"
    by code_simp
  have h4: "fst (WriteOff ?E private_client ''17'' (Finite 1) private_world) = None"
    by code_simp
  from h1 h2 h3 h4 login_needs_cookie_jar [where f = "NewClient ''production'' creds" and E = ?E
      and w = fresh_world and mode = "''production''" and credentials = creds
      and balance = "Finite 1" and invoiceID = "''17''" and g = private_client and v = private_world]
  show ?thesis by blast
qed

text \<open>
  C2, as stated, fails on \<^verbatim>\<open>fusebill.go\<close>: there a login on a client whose jar is
  present posts the credentials, on every call, and a login on a client with no jar
  posts nothing and fails.
\<close>

theorem login_posts_again_counterexample:
  "cookieJar private_client \<noteq> None
   \<and> login (sample_env [(login_url, reply_ok [])]) private_client private_world =
       (None, private_world\<lparr>trace := [(Client private_client, login_request_of private_client)]\<rparr>)
   \<and> login (sample_env [(login_url, reply_ok [])]) private_client
        (private_world\<lparr>trace := [(Client private_client, login_request_of private_client)]\<rparr>) =
       (None, private_world\<lparr>trace := [(Client private_client, login_request_of private_client),
                                        (Client private_client, login_request_of private_client)]\<rparr>)
   \<and> rq_body (login_request_of private_client) = ''password=s3cret+pw&username=billing%40example.com''
   \<and> cookieJar (NewClient ''staging'' creds) = None
   \<and> login (sample_env [(login_url, reply_ok [])]) (NewClient ''staging'' creds) fresh_world =
       (Some (errorString ''cookie jar should be set''), fresh_world)"
  by code_simp

text \<open>
  C2, amended. In \<^verbatim>\<open>part_000\<close> login is idempotent: with the jar present it returns nil
  at once and dispatches nothing; with no jar it posts the form-encoded credentials, and
  an answer other than 200 is the authentication error. In \<^verbatim>\<open>fusebill.go\<close> login with
  no jar returns ``cookie jar should be set'' and dispatches nothing; with the jar
  present it posts the form-encoded credentials on every call, and an answer other than
  200 is the authentication error.
\<close>

theorem login_by_revision:
  "(cookieJar_p0 f' \<noteq> None \<longrightarrow> login_p0 E f' w' = (None, f', w'))
   \<and> (cookieJar_p0 g' = None
        \<and> answers E (trace w') (session_client w') (login_request_of_p0 g') resp'
      \<longrightarrow> login_p0 E g' w' =
            (if rs_status resp' \<noteq> 200
             then Some (errorString ''unable to login, check you login and password'') else None,
             g'\<lparr>cookieJar_p0 := Some (JarRef (jars w'))\<rparr>,
             w'\<lparr>trace := trace w' @ [(session_client w', login_request_of_p0 g')],
                jars := Suc (jars w'), client := Some (session_client w')\<rparr>))
   \<and> (cookieJar f = None \<longrightarrow> login E f w = (Some (errorString ''cookie jar should be set''), w))
   \<and> (cookieJar g \<noteq> None \<and> answers E (trace w) (Client g) (login_request_of g) resp
      \<longrightarrow> login E g w =
            (if rs_status resp \<noteq> 200
             then Some (errorString ''unable to login, check you login and password'') else None,
             w\<lparr>trace := trace w @ [(Client g, login_request_of g)]\<rparr>))"
proof (intro conjI impI)
  show "cookieJar_p0 f' \<noteq> None \<Longrightarrow> login_p0 E f' w' = (None, f', w')"
    by (rule login_p0_with_jar)
  show "cookieJar f = None \<Longrightarrow> login E f w = (Some (errorString ''cookie jar should be set''), w)"
    by (rule login_without_jar)
next
  assume "cookieJar_p0 g' = None
        \<and> answers E (trace w') (session_client w') (login_request_of_p0 g') resp'"
  then show "login_p0 E g' w' =
            (if rs_status resp' \<noteq> 200
             then Some (errorString ''unable to login, check you login and password'') else None,
             g'\<lparr>cookieJar_p0 := Some (JarRef (jars w'))\<rparr>,
             w'\<lparr>trace := trace w' @ [(session_client w', login_request_of_p0 g')],
                jars := Suc (jars w'), client := Some (session_client w')\<rparr>)"
    using login_p0_answered [of g' E w' resp'] by (simp add: sent_def session_opened_def)
next
  assume "cookieJar g \<noteq> None \<and> answers E (trace w) (Client g) (login_request_of g) resp"
  then show "login E g w =
            (if rs_status resp \<noteq> 200
             then Some (errorString ''unable to login, check you login and password'') else None,
             w\<lparr>trace := trace w @ [(Client g, login_request_of g)]\<rparr>)"
    using login_answered [of g E w resp] by (simp add: sent_def)
qed

theorem login_by_revision_witness:
  "cookieJar_p0 (fst session_p0) \<noteq> None
   \<and> login_p0 (sample_env [(login_url, reply 401 ''denied'')]) (fst session_p0) (snd session_p0) =
       (None, fst session_p0, snd session_p0)
   \<and> (cookieJar_p0 client_p0 = None
      \<and> answers (sample_env [(login_url, reply 401 ''denied'')]) (trace fresh_world_p0)
            (session_client fresh_world_p0) (login_request_of_p0 client_p0) (reply 401 ''denied''))
   \<and> fst (login_p0 (sample_env [(login_url, reply 401 ''denied'')]) client_p0 fresh_world_p0) =
       Some (errorString ''unable to login, check you login and password'')
   \<and> trace (snd (snd (login_p0 (sample_env [(login_url, reply 401 ''denied'')]) client_p0 fresh_world_p0))) =
       [(session_client fresh_world_p0, login_request_of_p0 client_p0)]
   \<and> cookieJar (NewClient ''staging'' creds) = None
   \<and> login (sample_env [(login_url, reply 401 ''denied'')]) (NewClient ''staging'' creds) fresh_world =
       (Some (errorString ''cookie jar should be set''), fresh_world)
   \<and> (cookieJar private_client \<noteq> None
      \<and> answers (sample_env [(login_url, reply 401 ''denied'')]) (trace private_world)
            (Client private_client) (login_request_of private_client) (reply 401 ''denied''))
   \<and> login (sample_env [(login_url, reply 401 ''denied'')]) private_client private_world =
       (Some (errorString ''unable to login, check you login and password''),
        private_world\<lparr>trace := trace private_world @ [(Client private_client, login_request_of private_client)]\<rparr>)"
proof -
  let ?E = "sample_env [(login_url, reply 401 ''denied'')]"
  have h1: "cookieJar_p0 (fst session_p0) \<noteq> None"
    by code_simp
  have h2: "cookieJar_p0 client_p0 = None
      \<and> answers ?E (trace fresh_world_p0) (session_client fresh_world_p0)
            (login_request_of_p0 client_p0) (reply 401 ''denied'')"
    by (simp add: sample_answers sample_urls sample_jars)
  have h3: "cookieJar (NewClient ''staging'' creds) = None"
    by (simp add: NewClient_def)
  have h4: "cookieJar private_client \<noteq> None
      \<and> answers ?E (trace private_world) (Client private_client)
            (login_request_of private_client) (reply 401 ''denied'')"
    by (simp add: sample_answers sample_urls sample_jars)
  have t: "trace fresh_world_p0 = []"
    by (simp add: fresh_world_p0_def)
  from h1 h2 h3 h4 login_by_revision [where f' = "fst session_p0" and w' = "snd session_p0" and E = ?E]
    login_by_revision [where g' = client_p0 and w' = fresh_world_p0 and E = ?E
      and resp' = "reply 401 ''denied''" and f = "NewClient ''staging'' creds" and w = fresh_world]
    login_by_revision [where g = private_client and w = private_world and E = ?E
      and resp = "reply 401 ''denied''"]
  show ?thesis
    by (simp add: reply_def t)
qed

text \<open>
  C3, as stated, fails: in \<^verbatim>\<open>fusebill.go\<close> the jar is there from construction, before
  any login; and in \<^verbatim>\<open>part_000\<close> the jar is created before the credentials are posted,
  so a login that is refused leaves it set.
\<close>

theorem jar_before_login_counterexample:
  "cookieJar (fst (NewPrivateClient ''staging'' creds fresh_world)) = Some (JarRef 0)
   \<and> trace (snd (NewPrivateClient ''staging'' creds fresh_world)) = []
   \<and> cookieJar_p0 client_p0 = None
   \<and> fst (login_p0 (sample_env [(login_url, reply 401 ''denied'')]) client_p0 fresh_world_p0) =
       Some (errorString ''unable to login, check you login and password'')
   \<and> cookieJar_p0 (fst (snd (login_p0 (sample_env [(login_url, reply 401 ''denied'')])
                                client_p0 fresh_world_p0))) = Some (JarRef 0)"
  by code_simp

text \<open>
  C3, amended. The cookie jar is set once and never replaced. In \<^verbatim>\<open>fusebill.go\<close>
  \<open>NewClient\<close> leaves it nil and \<open>NewPrivateClient\<close> allocates it at construction, with no
  request made; no method assigns it afterwards (none returns a client value). In
  \<^verbatim>\<open>part_000\<close> \<open>NewClient\<close> leaves it nil, a first login answered 200 returns nil and
  leaves the client with a fresh jar, and once a client has a jar it has that same jar
  after any sequence of calls of login, WriteOff, SendRequest and GetInvoiceBalance.
\<close>

theorem cookie_jar_set_once:
  "cookieJar (NewClient mode credentials) = None
   \<and> cookieJar (fst (NewPrivateClient mode credentials w)) = Some (JarRef (jars w))
   \<and> trace (snd (NewPrivateClient mode credentials w)) = trace w
   \<and> cookieJar_p0 (NewClient_p0 baseUrl imode credentials') = None
   \<and> (cookieJar_p0 f' = None
        \<and> answers E (trace w') (session_client w') (login_request_of_p0 f') resp
        \<and> rs_status resp = 200
      \<longrightarrow> fst (login_p0 E f' w') = None
          \<and> cookieJar_p0 (fst (snd (login_p0 E f' w'))) = Some (JarRef (jars w')))
   \<and> (cookieJar_p0 (fst s) = Some j \<longrightarrow> cookieJar_p0 (fst (run_p0 E calls s)) = Some j)"
proof (intro conjI impI)
  show "cookieJar (NewClient mode credentials) = None"
    by (simp add: NewClient_def)
  show "cookieJar (fst (NewPrivateClient mode credentials w)) = Some (JarRef (jars w))"
    by (simp add: NewPrivateClient_def cookiejar_New_def)
  show "trace (snd (NewPrivateClient mode credentials w)) = trace w"
    by (simp add: NewPrivateClient_def cookiejar_New_def)
  show "cookieJar_p0 (NewClient_p0 baseUrl imode credentials') = None"
    by (simp add: NewClient_p0_def)
  show "cookieJar_p0 (fst s) = Some j \<Longrightarrow> cookieJar_p0 (fst (run_p0 E calls s)) = Some j"
    by (rule run_p0_keeps_jar)
next
  assume a: "cookieJar_p0 f' = None
        \<and> answers E (trace w') (session_client w') (login_request_of_p0 f') resp
        \<and> rs_status resp = 200"
  then show "fst (login_p0 E f' w') = None"
    using login_p0_answered [of f' E w' resp] by simp
  from a show "cookieJar_p0 (fst (snd (login_p0 E f' w'))) = Some (JarRef (jars w'))"
    using login_p0_answered [of f' E w' resp] by simp
qed

theorem cookie_jar_set_once_witness:
  "cookieJar (NewClient ''staging'' creds) = None
   \<and> cookieJar (fst (NewPrivateClient ''staging'' creds fresh_world)) = Some (JarRef (jars fresh_world))
   \<and> cookieJar_p0 (NewClient_p0 ''https://stg-secure.fusebill.com'' mode_p0 creds_p0) = None
   \<and> (cookieJar_p0 client_p0 = None
      \<and> answers (sample_env [(login_url, reply_ok []), (writeoff_url, reply_ok [])]) (trace fresh_world_p0)
            (session_client fresh_world_p0) (login_request_of_p0 client_p0) (reply_ok [])
      \<and> rs_status (reply_ok []) = 200)
   \<and> fst (login_p0 (sample_env [(login_url, reply_ok []), (writeoff_url, reply_ok [])])
             client_p0 fresh_world_p0) = None
   \<and> cookieJar_p0 (fst (snd (login_p0 (sample_env [(login_url, reply_ok []), (writeoff_url, reply_ok [])])
                                client_p0 fresh_world_p0))) = Some (JarRef (jars fresh_world_p0))
   \<and> cookieJar_p0 (fst session_p0) = Some (JarRef 0)
   \<and> cookieJar_p0 (fst (run_p0 (sample_env [(login_url, reply_ok []), (writeoff_url, reply_ok [])])
                           [CallWriteOff ''17'' (Finite 1), CallLogin, CallGetInvoiceBalance ''17'',
                            CallWriteOff ''18'' (Finite (- 5))]
                           session_p0)) = Some (JarRef 0)"
proof -
  let ?E = "sample_env [(login_url, reply_ok []), (writeoff_url, reply_ok [])]"
  have h1: "cookieJar_p0 client_p0 = None
      \<and> answers ?E (trace fresh_world_p0) (session_client fresh_world_p0)
            (login_request_of_p0 client_p0) (reply_ok [])
      \<and> rs_status (reply_ok []) = 200"
    by (simp add: sample_answers sample_urls sample_jars reply_ok_def)
  have h2: "cookieJar_p0 (fst session_p0) = Some (JarRef 0)"
    by code_simp
  from h1 h2 cookie_jar_set_once [where mode = "''staging''" and credentials = creds
      and w = fresh_world and baseUrl = "''https://stg-secure.fusebill.com''" and imode = mode_p0
      and credentials' = creds_p0 and f' = client_p0 and w' = fresh_world_p0 and E = ?E
      and resp = "reply_ok []" and s = session_p0 and j = "JarRef 0"
      and calls = "[CallWriteOff ''17'' (Finite 1), CallLogin, CallGetInvoiceBalance ''17'',
                    CallWriteOff ''18'' (Finite (- 5))]"]
  show ?thesis by blast
qed

text \<open>
  C5, as stated, fails in its second half: a response with status 200 whose body cannot
  be read to its end makes \<open>SendRequest\<close> return the read error and the zero Response.
\<close>

theorem SendRequest_body_cut_counterexample:
  "answers (sample_env api_routes) (trace fresh_world) (Client public_client)
      (api_request (BaseUrl public_client) (Token (Credentials public_client)) (get_invoice ''19''))
      cut_reply
   \<and> rs_status cut_reply = 200
   \<and> fst (SendRequest (sample_env api_routes) public_client (get_invoice ''19'') fresh_world) =
       (\<lparr>Body = [], StatusCode = 0\<rparr>, Some (ExternalError ''unexpected EOF''))
   \<and> fst (SendRequest_p0 (sample_env api_routes) client_p0 (get_invoice ''19'') fresh_world_p0) =
       (\<lparr>Body = [], StatusCode = 0\<rparr>, Some (ExternalError ''unexpected EOF''))"
  by code_simp

text \<open>
  C5, amended. For every request that is answered with a status other than 200,
  \<open>SendRequest\<close> returns the zero Response and an error whose message contains the
  decimal status code and the body text that was read. For a 200 answer whose body is
  read without error it returns that body and the status code with a nil error; for a
  200 answer whose body read fails it returns the zero Response and the read error.
  Both revisions.
\<close>

theorem SendRequest_by_status:
  "(answers E (trace w) (Client f) (api_request (BaseUrl f) (Token (Credentials f)) r) resp
      \<and> rs_status resp \<noteq> 200
    \<longrightarrow> fst (SendRequest E f r w) =
          (\<lparr>Body = [], StatusCode = 0\<rparr>,
           Some (errorString (failure_message (rs_status resp) (rs_body resp)))))
   \<and> (answers E (trace w) (Client f) (api_request (BaseUrl f) (Token (Credentials f)) r) resp
      \<and> rs_status resp = 200 \<and> rs_body_err resp = None
    \<longrightarrow> fst (SendRequest E f r w) = (\<lparr>Body = rs_body resp, StatusCode = 200\<rparr>, None))
   \<and> (answers E (trace w) (Client f) (api_request (BaseUrl f) (Token (Credentials f)) r) resp
      \<and> rs_status resp = 200 \<and> rs_body_err resp = Some e
    \<longrightarrow> fst (SendRequest E f r w) = (\<lparr>Body = [], StatusCode = 0\<rparr>, Some (ExternalError e)))
   \<and> (answers E (trace w') (Client_p0 f') (api_request (ApiHost (Mode f')) (Token_p0 (Mode f')) r) resp
      \<and> rs_status resp \<noteq> 200
    \<longrightarrow> fst (SendRequest_p0 E f' r w') =
          (\<lparr>Body = [], StatusCode = 0\<rparr>,
           Some (errorString (failure_message (rs_status resp) (rs_body resp)))))
   \<and> (answers E (trace w') (Client_p0 f') (api_request (ApiHost (Mode f')) (Token_p0 (Mode f')) r) resp
      \<and> rs_status resp = 200 \<and> rs_body_err resp = None
    \<longrightarrow> fst (SendRequest_p0 E f' r w') = (\<lparr>Body = rs_body resp, StatusCode = 200\<rparr>, None))
   \<and> (answers E (trace w') (Client_p0 f') (api_request (ApiHost (Mode f')) (Token_p0 (Mode f')) r) resp
      \<and> rs_status resp = 200 \<and> rs_body_err resp = Some e
    \<longrightarrow> fst (SendRequest_p0 E f' r w') = (\<lparr>Body = [], StatusCode = 0\<rparr>, Some (ExternalError e)))
   \<and> sublist (FormatInt code) (failure_message code content)
   \<and> sublist content (failure_message code content)"
  by (intro conjI impI; (elim conjE)?;
      simp add: SendRequest_answered SendRequest_p0_answered failure_message_contains)

theorem SendRequest_by_status_witness:
  "(answers (sample_env api_routes) (trace fresh_world) (Client public_client)
        (api_request (BaseUrl public_client) (Token (Credentials public_client)) (get_invoice ''18''))
        (reply 404 ''{\"message\":\"not found\"}'')
      \<and> rs_status (reply 404 ''{\"message\":\"not found\"}'') \<noteq> 200)
   \<and> fst (SendRequest (sample_env api_routes) public_client (get_invoice ''18'') fresh_world) =
        (\<lparr>Body = [], StatusCode = 0\<rparr>,
         Some (errorString (failure_message 404 ''{\"message\":\"not found\"}'')))
   \<and> failure_message 404 ''{\"message\":\"not found\"}'' =
        ''Request failed with the status code: 404, content: {\"message\":\"not found\"}''
   \<and> sublist (FormatInt 404) (failure_message 404 ''{\"message\":\"not found\"}'')
   \<and> sublist ''{\"message\":\"not found\"}'' (failure_message 404 ''{\"message\":\"not found\"}'')
   \<and> (answers (sample_env api_routes) (trace fresh_world) (Client public_client)
        (api_request (BaseUrl public_client) (Token (Credentials public_client)) (get_invoice ''17''))
        (reply_ok ''{\"outstandingBalance\": 42.5}'')
      \<and> rs_status (reply_ok ''{\"outstandingBalance\": 42.5}'') = 200
      \<and> rs_body_err (reply_ok ''{\"outstandingBalance\": 42.5}'') = None)
   \<and> fst (SendRequest (sample_env api_routes) public_client (get_invoice ''17'') fresh_world) =
        (\<lparr>Body = ''{\"outstandingBalance\": 42.5}'', StatusCode = 200\<rparr>, None)
   \<and> (answers (sample_env api_routes) (trace fresh_world) (Client public_client)
        (api_request (BaseUrl public_client) (Token (Credentials public_client)) (get_invoice ''19''))
        cut_reply
      \<and> rs_status cut_reply = 200 \<and> rs_body_err cut_reply = Some ''unexpected EOF'')
   \<and> fst (SendRequest (sample_env api_routes) public_client (get_invoice ''19'') fresh_world) =
        (\<lparr>Body = [], StatusCode = 0\<rparr>, Some (ExternalError ''unexpected EOF''))
   \<and> (answers (sample_env api_routes) (trace fresh_world_p0) (Client_p0 client_p0)
        (api_request (ApiHost (Mode client_p0)) (Token_p0 (Mode client_p0)) (get_invoice ''18''))
        (reply 404 ''{\"message\":\"not found\"}''))
   \<and> fst (SendRequest_p0 (sample_env api_routes) client_p0 (get_invoice ''18'') fresh_world_p0) =
        (\<lparr>Body = [], StatusCode = 0\<rparr>,
         Some (errorString (failure_message 404 ''{\"message\":\"not found\"}'')))
   \<and> (answers (sample_env api_routes) (trace fresh_world_p0) (Client_p0 client_p0)
        (api_request (ApiHost (Mode client_p0)) (Token_p0 (Mode client_p0)) (get_invoice ''17''))
        (reply_ok ''{\"outstandingBalance\": 42.5}''))
   \<and> fst (SendRequest_p0 (sample_env api_routes) client_p0 (get_invoice ''17'') fresh_world_p0) =
        (\<lparr>Body = ''{\"outstandingBalance\": 42.5}'', StatusCode = 200\<rparr>, None)
   \<and> (answers (sample_env api_routes) (trace fresh_world_p0) (Client_p0 client_p0)
        (api_request (ApiHost (Mode client_p0)) (Token_p0 (Mode client_p0)) (get_invoice ''19''))
        cut_reply)
   \<and> fst (SendRequest_p0 (sample_env api_routes) client_p0 (get_invoice ''19'') fresh_world_p0) =
        (\<lparr>Body = [], StatusCode = 0\<rparr>, Some (ExternalError ''unexpected EOF''))"
proof -
  let ?E = "sample_env api_routes"
  let ?nf = "''{\"message\":\"not found\"}''"
  let ?inv = "''{\"outstandingBalance\": 42.5}''"
  have a18: "answers ?E (trace fresh_world) (Client public_client)
        (api_request (BaseUrl public_client) (Token (Credentials public_client)) (get_invoice ''18''))
        (reply 404 ?nf)"
    by code_simp
  have a17: "answers ?E (trace fresh_world) (Client public_client)
        (api_request (BaseUrl public_client) (Token (Credentials public_client)) (get_invoice ''17''))
        (reply_ok ?inv)"
    by code_simp
  have a19: "answers ?E (trace fresh_world) (Client public_client)
        (api_request (BaseUrl public_client) (Token (Credentials public_client)) (get_invoice ''19''))
        cut_reply"
    by code_simp
  have b18: "answers ?E (trace fresh_world_p0) (Client_p0 client_p0)
        (api_request (ApiHost (Mode client_p0)) (Token_p0 (Mode client_p0)) (get_invoice ''18''))
        (reply 404 ?nf)"
    by code_simp
  have b17: "answers ?E (trace fresh_world_p0) (Client_p0 client_p0)
        (api_request (ApiHost (Mode client_p0)) (Token_p0 (Mode client_p0)) (get_invoice ''17''))
        (reply_ok ?inv)"
    by code_simp
  have b19: "answers ?E (trace fresh_world_p0) (Client_p0 client_p0)
        (api_request (ApiHost (Mode client_p0)) (Token_p0 (Mode client_p0)) (get_invoice ''19''))
        cut_reply"
    by code_simp
  have s: "rs_status (reply 404 ?nf) = 404" "rs_body (reply 404 ?nf) = ?nf"
    "rs_status (reply_ok ?inv) = 200" "rs_body (reply_ok ?inv) = ?inv" "rs_body_err (reply_ok ?inv) = None"
    "rs_status cut_reply = 200" "rs_body_err cut_reply = Some ''unexpected EOF''"
    by (simp_all add: reply_def reply_ok_def cut_reply_def)
  have m: "failure_message 404 ?nf =
        ''Request failed with the status code: 404, content: {\"message\":\"not found\"}''"
    by code_simp
  from a18 a17 a19 b18 b17 b19
    SendRequest_by_status [where E = ?E and f = public_client and w = fresh_world
      and r = "get_invoice ''18''" and resp = "reply 404 ?nf" and f' = client_p0
      and w' = fresh_world_p0 and code = 404 and content = ?nf]
    SendRequest_by_status [where E = ?E and f = public_client and w = fresh_world
      and r = "get_invoice ''17''" and resp = "reply_ok ?inv" and f' = client_p0
      and w' = fresh_world_p0]
    SendRequest_by_status [where E = ?E and f = public_client and w = fresh_world
      and r = "get_invoice ''19''" and resp = cut_reply and f' = client_p0
      and w' = fresh_world_p0 and e = "''unexpected EOF''"]
  show ?thesis
    by (simp add: s m)
qed

text \<open>
  C6. For every invoice ID, when \<open>SendRequest\<close> succeeds with a body that decodes as
  \<^verbatim>\<open>{"outstandingBalance": x}\<close>, \<open>GetInvoiceBalance\<close> returns \<open>x\<close> and a nil error; the
  sample body gives 42.5. Both revisions.
\<close>

theorem GetInvoiceBalance_returns_decoded:
  "(SendRequest E f (get_invoice invoiceID) w = ((resp, None), w1)
      \<and> json_unmarshal E (Body resp) \<lparr>OutstandingBalance = Finite 0\<rparr> = (\<lparr>OutstandingBalance = x\<rparr>, None)
    \<longrightarrow> GetInvoiceBalance E f invoiceID w = ((x, None), w1))
   \<and> (SendRequest_p0 E f' (get_invoice invoiceID) w' = ((resp', None), w1')
      \<and> json_unmarshal E (Body resp') \<lparr>OutstandingBalance = Finite 0\<rparr> = (\<lparr>OutstandingBalance = x'\<rparr>, None)
    \<longrightarrow> GetInvoiceBalance_p0 E f' invoiceID w' = ((x', None), w1'))"
proof (intro conjI impI)
  assume "SendRequest E f (get_invoice invoiceID) w = ((resp, None), w1)
      \<and> json_unmarshal E (Body resp) \<lparr>OutstandingBalance = Finite 0\<rparr> = (\<lparr>OutstandingBalance = x\<rparr>, None)"
  then show "GetInvoiceBalance E f invoiceID w = ((x, None), w1)"
    using GetInvoiceBalance_decoded [of E f invoiceID w resp w1 "\<lparr>OutstandingBalance = x\<rparr>" None]
    by simp
next
  assume "SendRequest_p0 E f' (get_invoice invoiceID) w' = ((resp', None), w1')
      \<and> json_unmarshal E (Body resp') \<lparr>OutstandingBalance = Finite 0\<rparr> = (\<lparr>OutstandingBalance = x'\<rparr>, None)"
  then show "GetInvoiceBalance_p0 E f' invoiceID w' = ((x', None), w1')"
    using GetInvoiceBalance_p0_decoded [of E f' invoiceID w' resp' w1' "\<lparr>OutstandingBalance = x'\<rparr>" None]
    by simp
qed

theorem GetInvoiceBalance_returns_decoded_witness:
  "(SendRequest (sample_env api_routes) public_client (get_invoice ''17'') fresh_world =
        ((\<lparr>Body = ''{\"outstandingBalance\": 42.5}'', StatusCode = 200\<rparr>, None),
         fresh_world\<lparr>trace := [(Client public_client,
            api_request (BaseUrl public_client) (Token (Credentials public_client)) (get_invoice ''17''))]\<rparr>)
      \<and> json_unmarshal (sample_env api_routes) ''{\"outstandingBalance\": 42.5}''
            \<lparr>OutstandingBalance = Finite 0\<rparr> = (\<lparr>OutstandingBalance = Finite 42.5\<rparr>, None))
   \<and> fst (GetInvoiceBalance (sample_env api_routes) public_client ''17'' fresh_world) = (Finite 42.5, None)
   \<and> (SendRequest_p0 (sample_env api_routes) client_p0 (get_invoice ''17'') fresh_world_p0 =
        ((\<lparr>Body = ''{\"outstandingBalance\": 42.5}'', StatusCode = 200\<rparr>, None),
         fresh_world_p0\<lparr>trace := [(Client_p0 client_p0,
            api_request (ApiHost (Mode client_p0)) (Token_p0 (Mode client_p0)) (get_invoice ''17''))]\<rparr>))
   \<and> fst (GetInvoiceBalance_p0 (sample_env api_routes) client_p0 ''17'' fresh_world_p0) = (Finite 42.5, None)"
proof -
  let ?E = "sample_env api_routes"
  let ?inv = "''{\"outstandingBalance\": 42.5}''"
  let ?w = "fresh_world\<lparr>trace := [(Client public_client,
            api_request (BaseUrl public_client) (Token (Credentials public_client)) (get_invoice ''17''))]\<rparr>"
  let ?w' = "fresh_world_p0\<lparr>trace := [(Client_p0 client_p0,
            api_request (ApiHost (Mode client_p0)) (Token_p0 (Mode client_p0)) (get_invoice ''17''))]\<rparr>"
  have h1: "SendRequest ?E public_client (get_invoice ''17'') fresh_world =
        ((\<lparr>Body = ?inv, StatusCode = 200\<rparr>, None), ?w)"
    by code_simp
  have h2: "json_unmarshal ?E ?inv \<lparr>OutstandingBalance = Finite 0\<rparr> = (\<lparr>OutstandingBalance = Finite 42.5\<rparr>, None)"
    by (simp add: sample_env_def sample_unmarshal_def)
  have h3: "SendRequest_p0 ?E client_p0 (get_invoice ''17'') fresh_world_p0 =
        ((\<lparr>Body = ?inv, StatusCode = 200\<rparr>, None), ?w')"
    by code_simp
  from h1 h2 h3
    GetInvoiceBalance_returns_decoded [where E = ?E and f = public_client and invoiceID = "''17''"
      and w = fresh_world and resp = "\<lparr>Body = ?inv, StatusCode = 200\<rparr>" and ?w1.0 = ?w
      and x = "Finite 42.5" and f' = client_p0 and w' = fresh_world_p0
      and resp' = "\<lparr>Body = ?inv, StatusCode = 200\<rparr>" and w1' = ?w' and x' = "Finite 42.5"]
  show ?thesis by simp
qed

text \<open>
  C8, as stated, fails where the decoder reports an error after it has stored a field:
  on the body with the key twice encoding/json returns an error and leaves 42.5 in the
  struct, and \<open>GetInvoiceBalance\<close> returns 42.5 with a nil error, not 0.
\<close>

theorem GetInvoiceBalance_partial_decode_counterexample:
  "fst (SendRequest (sample_env api_routes) public_client (get_invoice ''20'') fresh_world) =
       (\<lparr>Body = ''{\"outstandingBalance\": 42.5, \"outstandingBalance\": \"x\"}'', StatusCode = 200\<rparr>, None)
   \<and> json_unmarshal (sample_env api_routes)
        ''{\"outstandingBalance\": 42.5, \"outstandingBalance\": \"x\"}'' \<lparr>OutstandingBalance = Finite 0\<rparr> =
       (\<lparr>OutstandingBalance = Finite 42.5\<rparr>,
        Some ''json: cannot unmarshal string into Go struct field Invoice.outstandingBalance of type float64'')
   \<and> fst (GetInvoiceBalance (sample_env api_routes) public_client ''20'' fresh_world) = (Finite 42.5, None)
   \<and> fst (GetInvoiceBalance_p0 (sample_env api_routes) client_p0 ''20'' fresh_world_p0) = (Finite 42.5, None)"
  by code_simp

text \<open>
  C8, amended. Provided \<open>SendRequest\<close> succeeded, for every body on which the decoder
  reports an error \<open>GetInvoiceBalance\<close> ignores that error and returns, with a nil error,
  the balance the decoder left in the zero-initialised Invoice: 0 whenever the decoder
  left the struct as it was (as on the malformed sample body). Both revisions.
\<close>

theorem GetInvoiceBalance_ignores_decode_error:
  "(SendRequest E f (get_invoice invoiceID) w = ((resp, None), w1)
      \<and> json_unmarshal E (Body resp) \<lparr>OutstandingBalance = Finite 0\<rparr> = (v, Some e)
    \<longrightarrow> GetInvoiceBalance E f invoiceID w = ((OutstandingBalance v, None), w1))
   \<and> (SendRequest_p0 E f' (get_invoice invoiceID) w' = ((resp', None), w1')
      \<and> json_unmarshal E (Body resp') \<lparr>OutstandingBalance = Finite 0\<rparr> = (v', Some e')
    \<longrightarrow> GetInvoiceBalance_p0 E f' invoiceID w' = ((OutstandingBalance v', None), w1'))"
  by (intro conjI impI; (elim conjE)?;
      simp add: GetInvoiceBalance_decoded GetInvoiceBalance_p0_decoded)

theorem GetInvoiceBalance_ignores_decode_error_witness:
  "(fst (SendRequest (sample_env api_routes) public_client (get_invoice ''21'') fresh_world) =
        (\<lparr>Body = ''<html>maintenance</html>'', StatusCode = 200\<rparr>, None)
      \<and> json_unmarshal (sample_env api_routes) ''<html>maintenance</html>''
            \<lparr>OutstandingBalance = Finite 0\<rparr> =
          (\<lparr>OutstandingBalance = Finite 0\<rparr>, Some ''invalid character looking for beginning of value''))
   \<and> fst (GetInvoiceBalance (sample_env api_routes) public_client ''21'' fresh_world) = (Finite 0, None)
   \<and> fst (SendRequest_p0 (sample_env api_routes) client_p0 (get_invoice ''21'') fresh_world_p0) =
        (\<lparr>Body = ''<html>maintenance</html>'', StatusCode = 200\<rparr>, None)
   \<and> fst (GetInvoiceBalance_p0 (sample_env api_routes) client_p0 ''21'' fresh_world_p0) = (Finite 0, None)"
proof -
  let ?E = "sample_env api_routes"
  let ?b = "''<html>maintenance</html>''"
  let ?msg = "''invalid character looking for beginning of value''"
  let ?w1 = "snd (SendRequest ?E public_client (get_invoice ''21'') fresh_world)"
  let ?w1' = "snd (SendRequest_p0 ?E client_p0 (get_invoice ''21'') fresh_world_p0)"
  have g1: "fst (SendRequest ?E public_client (get_invoice ''21'') fresh_world) =
        (\<lparr>Body = ?b, StatusCode = 200\<rparr>, None)"
    by code_simp
  then have h1: "SendRequest ?E public_client (get_invoice ''21'') fresh_world =
        ((\<lparr>Body = ?b, StatusCode = 200\<rparr>, None), ?w1)"
    by (simp add: prod_eq_iff)
  have g3: "fst (SendRequest_p0 ?E client_p0 (get_invoice ''21'') fresh_world_p0) =
        (\<lparr>Body = ?b, StatusCode = 200\<rparr>, None)"
    by code_simp
  then have h3: "SendRequest_p0 ?E client_p0 (get_invoice ''21'') fresh_world_p0 =
        ((\<lparr>Body = ?b, StatusCode = 200\<rparr>, None), ?w1')"
    by (simp add: prod_eq_iff)
  have h2: "json_unmarshal ?E ?b \<lparr>OutstandingBalance = Finite 0\<rparr> = (\<lparr>OutstandingBalance = Finite 0\<rparr>, Some ?msg)"
    by (simp add: sample_env_def sample_unmarshal_def)
  from g1 g3 h2
    GetInvoiceBalance_ignores_decode_error [where E = ?E and f = public_client and invoiceID = "''21''"
      and w = fresh_world and resp = "\<lparr>Body = ?b, StatusCode = 200\<rparr>" and ?w1.0 = ?w1
      and v = "\<lparr>OutstandingBalance = Finite 0\<rparr>" and e = ?msg and f' = client_p0 and w' = fresh_world_p0
      and resp' = "\<lparr>Body = ?b, StatusCode = 200\<rparr>" and w1' = ?w1'
      and v' = "\<lparr>OutstandingBalance = Finite 0\<rparr>" and e' = ?msg]
    h1 h3
  show ?thesis by simp
qed

text \<open>
  C9, as stated, fails in two ways. \<^verbatim>\<open>Atoi\<close> returns an error and the bound of \<^verbatim>\<open>int\<close>,
  not 0, for an ID whose digits overflow (also when bytes that are no digits follow
  them), and the payload then carries 9223372036854775807. And for a positive amount
  that is an infinity \<^verbatim>\<open>json.Marshal\<close> fails, its error is dropped too, and the POST goes
  out with an empty body.
\<close>

theorem WriteOff_invoice_id_not_zero_counterexample:
  "Atoi ''99999999999999999999'' =
     (9223372036854775807, Some (NumError ''Atoi'' ''99999999999999999999'' ErrRange))
   \<and> f64_gt_zero (Finite 1)
   \<and> login (sample_env [(login_url, reply_ok []), (writeoff_url, reply_ok [])])
        private_client private_world =
       (None, private_world\<lparr>trace := [(Client private_client, login_request_of private_client)]\<rparr>)
   \<and> trace (snd (WriteOff (sample_env [(login_url, reply_ok []), (writeoff_url, reply_ok [])])
                   private_client ''99999999999999999999'' (Finite 1) private_world)) =
       [(Client private_client, login_request_of private_client),
        (Client private_client, writeoff_request (BaseUrl private_client)
                                  ''{\"invoiceId\":9223372036854775807,\"amount\":1}'')]
   \<and> Atoi ''99999999999999999999x'' =
     (9223372036854775807, Some (NumError ''Atoi'' ''99999999999999999999x'' ErrRange))
   \<and> trace (snd (WriteOff (sample_env [(login_url, reply_ok []), (writeoff_url, reply_ok [])])
                   private_client ''99999999999999999999x'' (Finite 1) private_world)) =
       [(Client private_client, login_request_of private_client),
        (Client private_client, writeoff_request (BaseUrl private_client)
                                  ''{\"invoiceId\":9223372036854775807,\"amount\":1}'')]
   \<and> Atoi ''abc'' = (0, Some (NumError ''Atoi'' ''abc'' ErrSyntax))
   \<and> f64_gt_zero PosInf
   \<and> trace (snd (WriteOff (sample_env [(login_url, reply_ok []), (writeoff_url, reply_ok [])])
                   private_client ''abc'' PosInf private_world)) =
       [(Client private_client, login_request_of private_client),
        (Client private_client, writeoff_request (BaseUrl private_client) [])]"
proof -
  let ?E = "sample_env [(login_url, reply_ok []), (writeoff_url, reply_ok [])]"
  let ?w1 = "private_world\<lparr>trace := [(Client private_client, login_request_of private_client)]\<rparr>"
  have a1: "Atoi ''99999999999999999999'' =
     (9223372036854775807, Some (NumError ''Atoi'' ''99999999999999999999'' ErrRange))"
    by code_simp
  have a2: "Atoi ''99999999999999999999x'' =
     (9223372036854775807, Some (NumError ''Atoi'' ''99999999999999999999x'' ErrRange))"
    by code_simp
  have a3: "Atoi ''abc'' = (0, Some (NumError ''Atoi'' ''abc'' ErrSyntax))"
    by code_simp
  have d: "FormatInt 9223372036854775807 = ''9223372036854775807''"
    by (simp add: FormatInt_def decimal.simps)
  have j: "json_float ?E 1 = ''1''"
    by (simp add: sample_env_def sample_json_float_def)
  have p: "f64_gt_zero (Finite 1)" "f64_gt_zero PosInf"
    by (simp_all add: f64_gt_zero_def)
  have l: "login ?E private_client private_world = (None, ?w1)"
    by code_simp
  have n: "new_request_error ?E ''POST'' (BaseUrl private_client @ ''/api/invoices/writeoff'') = None"
    by (simp add: sample_env_def)
  have t: "trace ?w1 = [(Client private_client, login_request_of private_client)]"
    by simp
  have r1: "writeoff_request_of ?E (BaseUrl private_client) ''99999999999999999999'' (Finite 1) =
      writeoff_request (BaseUrl private_client) ''{\"invoiceId\":9223372036854775807,\"amount\":1}''"
    by (simp add: writeoff_request_of_def Marshal_def a1 d j)
  have r2: "writeoff_request_of ?E (BaseUrl private_client) ''99999999999999999999x'' (Finite 1) =
      writeoff_request (BaseUrl private_client) ''{\"invoiceId\":9223372036854775807,\"amount\":1}''"
    by (simp add: writeoff_request_of_def Marshal_def a2 d j)
  have r3: "writeoff_request_of ?E (BaseUrl private_client) ''abc'' PosInf =
      writeoff_request (BaseUrl private_client) []"
    by (simp add: writeoff_request_of_def Marshal_def)
  note w = WriteOff_dispatches [OF gt_zero_not_le_zero l n]
  from a1 a2 a3 p l w [OF p(1), of "''99999999999999999999''"]
    w [OF p(1), of "''99999999999999999999x''"] w [OF p(2), of "''abc''"]
  show ?thesis
    by (simp only: r1 r2 r3 t append.simps simp_thms)
qed

text \<open>
  C9, amended. For every invoice ID on which \<^verbatim>\<open>Atoi\<close> reports a syntax error (so every
  non-empty ID whose first byte is neither a digit nor a sign) and every finite positive
  amount, \<open>WriteOff\<close>, once login has returned nil and the request is accepted, drops the
  parse error and dispatches the POST to \<^verbatim>\<open>/api/invoices/writeoff\<close> with the payload
  \<^verbatim>\<open>{"invoiceId":0,"amount":...}\<close>; it does not return a validation error before the
  request. Both revisions.
\<close>

theorem WriteOff_unparsed_invoice_id:
  "(snd (Atoi invoiceID) = Some (NumError ''Atoi'' invoiceID ErrSyntax) \<and> 0 < r
      \<and> login E f w = (None, w1)
      \<and> new_request_error E ''POST'' (BaseUrl f @ ''/api/invoices/writeoff'') = None
    \<longrightarrow> trace (snd (WriteOff E f invoiceID (Finite r) w)) =
          trace w1 @ [(Client f, writeoff_request (BaseUrl f)
                         (''{\"invoiceId\":0,\"amount\":'' @ json_float E r @ ''}''))])
   \<and> (snd (Atoi invoiceID) = Some (NumError ''Atoi'' invoiceID ErrSyntax) \<and> 0 < r
      \<and> login_p0 E f' w' = (None, f1', w1') \<and> client w1' = Some c
      \<and> new_request_error E ''POST'' (BaseUrl_p0 f1' @ ''/api/invoices/writeoff'') = None
    \<longrightarrow> trace (snd (snd (WriteOff_p0 E f' invoiceID (Finite r) w'))) =
          trace w1' @ [(c, writeoff_request (BaseUrl_p0 f1')
                          (''{\"invoiceId\":0,\"amount\":'' @ json_float E r @ ''}''))])
   \<and> (s \<noteq> [] \<and> \<not> is_digit (hd s) \<and> hd s \<noteq> CHR ''+'' \<and> hd s \<noteq> CHR ''-''
    \<longrightarrow> Atoi s = (0, Some (NumError ''Atoi'' s ErrSyntax)))"
proof (intro conjI impI)
  assume a: "snd (Atoi invoiceID) = Some (NumError ''Atoi'' invoiceID ErrSyntax) \<and> 0 < r
      \<and> login E f w = (None, w1)
      \<and> new_request_error E ''POST'' (BaseUrl f @ ''/api/invoices/writeoff'') = None"
  then have "\<not> f64_le_zero (Finite r)"
    by (simp add: f64_le_zero_def)
  with a have "trace (snd (WriteOff E f invoiceID (Finite r) w)) =
           trace w1 @ [(Client f, writeoff_request_of E (BaseUrl f) invoiceID (Finite r))]"
    by (simp add: WriteOff_dispatches)
  with a show "trace (snd (WriteOff E f invoiceID (Finite r) w)) =
          trace w1 @ [(Client f, writeoff_request (BaseUrl f)
                         (''{\"invoiceId\":0,\"amount\":'' @ json_float E r @ ''}''))]"
    by (simp add: writeoff_request_of_syntax_error)
next
  assume a: "snd (Atoi invoiceID) = Some (NumError ''Atoi'' invoiceID ErrSyntax) \<and> 0 < r
      \<and> login_p0 E f' w' = (None, f1', w1') \<and> client w1' = Some c
      \<and> new_request_error E ''POST'' (BaseUrl_p0 f1' @ ''/api/invoices/writeoff'') = None"
  then have "\<not> f64_le_zero (Finite r)"
    by (simp add: f64_le_zero_def)
  with a have "trace (snd (snd (WriteOff_p0 E f' invoiceID (Finite r) w'))) =
           trace w1' @ [(c, writeoff_request_of E (BaseUrl_p0 f1') invoiceID (Finite r))]"
    by (simp add: WriteOff_p0_dispatches)
  with a show "trace (snd (snd (WriteOff_p0 E f' invoiceID (Finite r) w'))) =
          trace w1' @ [(c, writeoff_request (BaseUrl_p0 f1')
                          (''{\"invoiceId\":0,\"amount\":'' @ json_float E r @ ''}''))]"
    by (simp add: writeoff_request_of_syntax_error)
next
  assume "s \<noteq> [] \<and> \<not> is_digit (hd s) \<and> hd s \<noteq> CHR ''+'' \<and> hd s \<noteq> CHR ''-''"
  then show "Atoi s = (0, Some (NumError ''Atoi'' s ErrSyntax))"
    by (simp add: Atoi_no_digit_first)
qed

theorem WriteOff_unparsed_invoice_id_witness:
  "(snd (Atoi ''INV-17'') = Some (NumError ''Atoi'' ''INV-17'' ErrSyntax) \<and> (0::real) < 42.5
      \<and> login (sample_env [(login_url, reply_ok []), (writeoff_url, reply_ok [])])
           private_client private_world =
          (None, private_world\<lparr>trace := [(Client private_client, login_request_of private_client)]\<rparr>)
      \<and> new_request_error (sample_env [(login_url, reply_ok []), (writeoff_url, reply_ok [])])
           ''POST'' (BaseUrl private_client @ ''/api/invoices/writeoff'') = None)
   \<and> trace (snd (WriteOff (sample_env [(login_url, reply_ok []), (writeoff_url, reply_ok [])])
                   private_client ''INV-17'' (Finite 42.5) private_world)) =
       [(Client private_client, login_request_of private_client),
        (Client private_client,
         writeoff_request (BaseUrl private_client) ''{\"invoiceId\":0,\"amount\":42.5}'')]
   \<and> (login_p0 (sample_env [(login_url, reply_ok []), (writeoff_url, reply_ok [])])
           client_p0 fresh_world_p0 =
          (None, client_p0\<lparr>cookieJar_p0 := Some (JarRef 0)\<rparr>,
           fresh_world_p0\<lparr>trace := [(session_client fresh_world_p0, login_request_of_p0 client_p0)],
                           jars := 1, client := Some (session_client fresh_world_p0)\<rparr>)
      \<and> client (fresh_world_p0\<lparr>trace := [(session_client fresh_world_p0, login_request_of_p0 client_p0)],
                           jars := 1, client := Some (session_client fresh_world_p0)\<rparr>) =
          Some (session_client fresh_world_p0))
   \<and> trace (snd (snd (WriteOff_p0 (sample_env [(login_url, reply_ok []), (writeoff_url, reply_ok [])])
                   client_p0 ''INV-17'' (Finite 42.5) fresh_world_p0))) =
       [(session_client fresh_world_p0, login_request_of_p0 client_p0),
        (session_client fresh_world_p0,
         writeoff_request (BaseUrl_p0 client_p0) ''{\"invoiceId\":0,\"amount\":42.5}'')]
   \<and> (''INV-17'' \<noteq> [] \<and> \<not> is_digit (hd ''INV-17'') \<and> hd ''INV-17'' \<noteq> CHR ''+''
      \<and> hd ''INV-17'' \<noteq> CHR ''-'')
   \<and> Atoi ''INV-17'' = (0, Some (NumError ''Atoi'' ''INV-17'' ErrSyntax))"
proof -
  let ?E = "sample_env [(login_url, reply_ok []), (writeoff_url, reply_ok [])]"
  let ?w1 = "private_world\<lparr>trace := [(Client private_client, login_request_of private_client)]\<rparr>"
  let ?f1 = "client_p0\<lparr>cookieJar_p0 := Some (JarRef 0)\<rparr>"
  let ?v1 = "fresh_world_p0\<lparr>trace := [(session_client fresh_world_p0, login_request_of_p0 client_p0)],
                           jars := 1, client := Some (session_client fresh_world_p0)\<rparr>"
  have a: "snd (Atoi ''INV-17'') = Some (NumError ''Atoi'' ''INV-17'' ErrSyntax)"
    by code_simp
  have s: "''INV-17'' \<noteq> [] \<and> \<not> is_digit (hd ''INV-17'') \<and> hd ''INV-17'' \<noteq> CHR ''+''
      \<and> hd ''INV-17'' \<noteq> CHR ''-''"
    by (simp add: is_digit_def)
  have p: "(0::real) < 42.5"
    by simp
  have l: "login ?E private_client private_world = (None, ?w1)"
    by code_simp
  have l': "login_p0 ?E client_p0 fresh_world_p0 = (None, ?f1, ?v1)"
    by code_simp
  have c: "client ?v1 = Some (session_client fresh_world_p0)"
    by simp
  have n: "new_request_error ?E ''POST'' (BaseUrl private_client @ ''/api/invoices/writeoff'') = None"
    "new_request_error ?E ''POST'' (BaseUrl_p0 ?f1 @ ''/api/invoices/writeoff'') = None"
    by (simp_all add: sample_env_def)
  have j: "json_float ?E = sample_json_float"
    by (simp add: sample_env_def)
  have b: "BaseUrl_p0 ?f1 = BaseUrl_p0 client_p0"
    by simp
  from a s p l l' c n
    WriteOff_unparsed_invoice_id [where invoiceID = "''INV-17''" and r = "42.5" and E = ?E
      and f = private_client and w = private_world and ?w1.0 = ?w1 and f' = client_p0
      and w' = fresh_world_p0 and f1' = ?f1 and w1' = ?v1 and c = "session_client fresh_world_p0"
      and s = "''INV-17''"]
  show ?thesis
    by (simp add: j b sample_json_float_def)
qed

end
